theory Spec2Isabelle
  imports Main "HOL-Library.AList" "HOL-Library.Char_ord" "HOL-Library.List_Lexorder"
begin

section \<open>Values of a parsed JSON document\<close>

text \<open>
  Every script starts with \<^verbatim>\<open>data = load_payload()\<close>, the value \<^verbatim>\<open>json.load\<close>
  returns: \<^verbatim>\<open>None\<close>, a \<^verbatim>\<open>bool\<close>, an unbounded \<^verbatim>\<open>int\<close>, a \<^verbatim>\<open>float\<close>, a
  \<^verbatim>\<open>str\<close>, a \<^verbatim>\<open>list\<close> or a \<^verbatim>\<open>dict\<close> with string keys. A dict is an association
  list in insertion order (a parsed document binds every key once; a lookup reads the
  first binding). A \<^verbatim>\<open>str\<close> is a \<open>string\<close> whose characters are the code points
  below 256. Floating-point numbers are a type parameter \<open>'f\<close>: the scripts only
  test them for truth, compare them and print them, and those operations are the
  fields of \<open>float_ops\<close>, so every theorem holds for any floating-point arithmetic.
\<close>

datatype 'f json =
    JNull
  | JBool bool
  | JInt int
  | JFloat 'f
  | JStr string
  | JArr "'f json list"
  | JObj "(string \<times> 'f json) list"

record 'f float_ops =
  float_nonzero :: "'f \<Rightarrow> bool"
  float_isnan :: "'f \<Rightarrow> bool"
  float_eq :: "'f \<Rightarrow> 'f \<Rightarrow> bool"
  float_eq_int :: "'f \<Rightarrow> int \<Rightarrow> bool"
  float_repr :: "'f \<Rightarrow> string"
  float_json :: "'f \<Rightarrow> string"

text \<open>The exceptions a script can die of; none of them is caught.\<close>

datatype py_error = OSError | JSONDecodeError | AttributeError | TypeError | ValueError | KeyError

subsection \<open>Dictionaries\<close>

text \<open>\<^verbatim>\<open>key in d\<close>, \<^verbatim>\<open>d.get(key)\<close> (\<^verbatim>\<open>None\<close> when absent) and \<^verbatim>\<open>d.get(key, default)\<close>.\<close>

definition has_key :: "(string \<times> 'v) list \<Rightarrow> string \<Rightarrow> bool" where
  "has_key d k = (map_of d k \<noteq> None)"

definition dict_get_default :: "(string \<times> 'f json) list \<Rightarrow> string \<Rightarrow> 'f json \<Rightarrow> 'f json" where
  "dict_get_default d k dflt = (case map_of d k of None \<Rightarrow> dflt | Some v \<Rightarrow> v)"

definition dict_get :: "(string \<times> 'f json) list \<Rightarrow> string \<Rightarrow> 'f json" where
  "dict_get d k = dict_get_default d k JNull"

subsection \<open>Types, truth and equality\<close>

text \<open>\<^verbatim>\<open>isinstance(v, dict)\<close>, \<^verbatim>\<open>isinstance(v, list)\<close>, \<^verbatim>\<open>isinstance(v, str)\<close>, and
  \<^verbatim>\<open>isinstance(v, int)\<close>, which holds of a \<^verbatim>\<open>bool\<close> too (\<^verbatim>\<open>bool\<close> is a subclass
  of \<^verbatim>\<open>int\<close>, \<^verbatim>\<open>True == 1\<close>).\<close>

fun is_dict :: "'f json \<Rightarrow> bool" where
  "is_dict (JObj d) = True"
| "is_dict v = False"

fun is_list :: "'f json \<Rightarrow> bool" where
  "is_list (JArr xs) = True"
| "is_list v = False"

fun is_str :: "'f json \<Rightarrow> bool" where
  "is_str (JStr s) = True"
| "is_str v = False"

fun as_int :: "'f json \<Rightarrow> int option" where
  "as_int (JInt i) = Some i"
| "as_int (JBool b) = Some (if b then 1 else 0)"
| "as_int v = None"

definition is_int :: "'f json \<Rightarrow> bool" where
  "is_int v = (as_int v \<noteq> None)"

text \<open>The dict a script goes on with after \<^verbatim>\<open>if not isinstance(v, dict): ...; v = {}\<close>.\<close>

fun dict_or_empty :: "'f json \<Rightarrow> (string \<times> 'f json) list" where
  "dict_or_empty (JObj d) = d"
| "dict_or_empty v = []"

text \<open>\<^verbatim>\<open>bool(v)\<close>: what \<^verbatim>\<open>if v\<close> and \<^verbatim>\<open>not v\<close> test.\<close>

fun truthy :: "'f float_ops \<Rightarrow> 'f json \<Rightarrow> bool" where
  "truthy F JNull = False"
| "truthy F (JBool b) = b"
| "truthy F (JInt i) = (i \<noteq> 0)"
| "truthy F (JFloat x) = float_nonzero F x"
| "truthy F (JStr s) = (s \<noteq> [])"
| "truthy F (JArr xs) = (xs \<noteq> [])"
| "truthy F (JObj d) = (d \<noteq> [])"

text \<open>\<^verbatim>\<open>v == s\<close> for a string literal \<^verbatim>\<open>s\<close>: only an equal \<^verbatim>\<open>str\<close> is equal to it.\<close>

definition eq_str :: "'f json \<Rightarrow> string \<Rightarrow> bool" where
  "eq_str v s = (v = JStr s)"

text \<open>
  \<^verbatim>\<open>a == b\<close> on parsed values. Numbers compare by value across \<^verbatim>\<open>bool\<close>,
  \<^verbatim>\<open>int\<close> and \<^verbatim>\<open>float\<close>; lists compare element by element and dicts key by key,
  where an element is equal to itself before \<^verbatim>\<open>==\<close> is asked (the decoder returns one
  shared \<^verbatim>\<open>NaN\<close> object, every other float is an object of its own).
\<close>

fun is_nan :: "'f float_ops \<Rightarrow> 'f json \<Rightarrow> bool" where
  "is_nan F (JFloat x) = float_isnan F x"
| "is_nan F v = False"

lemma size_json_elem: "x \<in> set xs \<Longrightarrow> size (x :: 'f json) < Suc (size_list size xs)"
  by (induction xs) auto

lemma size_json_entry:
  "(k, v) \<in> set d \<Longrightarrow> size (v :: 'f json) < Suc (size_list (size_prod (\<lambda>_. 0) size) d)"
  by (induction d) auto

function py_eq :: "'f float_ops \<Rightarrow> 'f json \<Rightarrow> 'f json \<Rightarrow> bool" where
  "py_eq F JNull b = (b = JNull)"
| "py_eq F (JBool x) b =
     (case b of JFloat y \<Rightarrow> float_eq_int F y (if x then 1 else 0)
      | _ \<Rightarrow> as_int b = Some (if x then 1 else 0))"
| "py_eq F (JInt x) b =
     (case b of JFloat y \<Rightarrow> float_eq_int F y x | _ \<Rightarrow> as_int b = Some x)"
| "py_eq F (JFloat x) b =
     (case b of JFloat y \<Rightarrow> float_eq F x y
      | _ \<Rightarrow> (case as_int b of Some i \<Rightarrow> float_eq_int F x i | None \<Rightarrow> False))"
| "py_eq F (JStr s) b = (b = JStr s)"
| "py_eq F (JArr xs) b =
     (case b of
        JArr ys \<Rightarrow> length xs = length ys \<and>
          list_all (\<lambda>(x, y). (is_nan F x \<and> is_nan F y) \<or> py_eq F x y) (zip xs ys)
      | _ \<Rightarrow> False)"
| "py_eq F (JObj d) b =
     (case b of
        JObj e \<Rightarrow> length d = length e \<and>
          list_all (\<lambda>(k, v). case map_of e k of None \<Rightarrow> False
                      | Some w \<Rightarrow> (is_nan F v \<and> is_nan F w) \<or> py_eq F v w) d
      | _ \<Rightarrow> False)"
  by pat_completeness auto
termination
proof (relation "measure (\<lambda>(F, a, b). size a)", goal_cases)
  case 1
  show ?case by simp
next
  case (2 F xs b ys z x y)
  then have "x \<in> set xs"
    by (auto dest: set_zip_leftD)
  then show ?case
    by (simp add: size_json_elem)
next
  case (3 F d b e z k v w)
  then have "(k, v) \<in> set d"
    by simp
  then show ?case
    by (simp add: size_json_entry)
qed

subsection \<open>Strings\<close>

text \<open>\<^verbatim>\<open>str.strip()\<close> removes the white space of \<^verbatim>\<open>str.isspace\<close> at both ends, and
  \<^verbatim>\<open>str.lower()\<close> maps each upper-case letter to its lower-case one (code points
  below 256).\<close>

definition is_space :: "char \<Rightarrow> bool" where
  "is_space c =
     (let n = (of_char c :: nat)
      in (9 \<le> n \<and> n \<le> 13) \<or> (28 \<le> n \<and> n \<le> 32) \<or> n = 133 \<or> n = 160)"

definition py_strip :: "string \<Rightarrow> string" where
  "py_strip s = rev (dropWhile is_space (rev (dropWhile is_space s)))"

definition lower_char :: "char \<Rightarrow> char" where
  "lower_char c =
     (let n = (of_char c :: nat)
      in if (65 \<le> n \<and> n \<le> 90) \<or> (192 \<le> n \<and> n \<le> 222 \<and> n \<noteq> 215)
         then char_of (n + 32) else c)"

definition py_lower :: "string \<Rightarrow> string" where
  "py_lower s = map lower_char s"

text \<open>\<^verbatim>\<open>sub in s\<close> on strings: \<^verbatim>\<open>sub\<close> occurs in \<^verbatim>\<open>s\<close> as a run of characters.\<close>

fun py_contains :: "string \<Rightarrow> string \<Rightarrow> bool" where
  "py_contains sub [] = (sub = [])"
| "py_contains sub (c # cs) = (take (length sub) (c # cs) = sub \<or> py_contains sub cs)"

text \<open>\<^verbatim>\<open>sep.join(parts)\<close>.\<close>

fun join :: "string \<Rightarrow> string list \<Rightarrow> string" where
  "join sep [] = []"
| "join sep [x] = x"
| "join sep (x # y # ys) = x @ sep @ join sep (y # ys)"

text \<open>An \<^verbatim>\<open>int\<close> in decimal, as \<^verbatim>\<open>str\<close>, an f-string and \<^verbatim>\<open>json.dumps\<close> print it.\<close>

function nat_str :: "nat \<Rightarrow> string" where
  "nat_str n = (if n < 10 then [char_of (48 + n)] else nat_str (n div 10) @ [char_of (48 + n mod 10)])"
  by pat_completeness auto
termination
  by (relation "measure id") auto

declare nat_str.simps [simp del]

definition int_str :: "int \<Rightarrow> string" where
  "int_str i = (if i < 0 then CHR ''-'' # nat_str (nat (- i)) else nat_str (nat i))"

definition hex_digit :: "nat \<Rightarrow> char" where
  "hex_digit n = (if n < 10 then char_of (48 + n) else char_of (87 + n))"

definition hex2 :: "nat \<Rightarrow> string" where
  "hex2 n = [hex_digit (n div 16), hex_digit (n mod 16)]"

text \<open>
  \<^verbatim>\<open>repr\<close> of a \<^verbatim>\<open>str\<close>: in single quotes, or in double quotes when the text has a
  single quote and no double quote; the quote and the backslash are escaped, tab, line
  feed and carriage return are written \<^verbatim>\<open>\t \n \r\<close>, and a character that is not
  printable as \<^verbatim>\<open>\xNN\<close>.
\<close>

definition repr_char :: "char \<Rightarrow> char \<Rightarrow> string" where
  "repr_char quote c =
     (let n = (of_char c :: nat)
      in if c = quote \<or> c = CHR 0x5C then [CHR 0x5C, c]
         else if n = 9 then [CHR 0x5C, CHR ''t'']
         else if n = 10 then [CHR 0x5C, CHR ''n'']
         else if n = 13 then [CHR 0x5C, CHR ''r'']
         else if n < 32 \<or> n = 127 \<or> (128 \<le> n \<and> n \<le> 160) \<or> n = 173
           then [CHR 0x5C, CHR ''x''] @ hex2 n
         else [c])"

definition py_repr_str :: "string \<Rightarrow> string" where
  "py_repr_str s =
     (let quote = (if CHR 0x27 \<in> set s \<and> CHR 0x22 \<notin> set s then CHR 0x22 else CHR 0x27)
      in [quote] @ concat (map (repr_char quote) s) @ [quote])"

text \<open>\<^verbatim>\<open>repr(v)\<close>, and \<^verbatim>\<open>str(v)\<close>, which is what an f-string prints: the text itself
  for a \<^verbatim>\<open>str\<close>, \<^verbatim>\<open>repr(v)\<close> for every other value.\<close>

function py_repr :: "'f float_ops \<Rightarrow> 'f json \<Rightarrow> string" where
  "py_repr F JNull = ''None''"
| "py_repr F (JBool b) = (if b then ''True'' else ''False'')"
| "py_repr F (JInt i) = int_str i"
| "py_repr F (JFloat x) = float_repr F x"
| "py_repr F (JStr s) = py_repr_str s"
| "py_repr F (JArr xs) = ''['' @ join '', '' (map (py_repr F) xs) @ '']''"
| "py_repr F (JObj d) =
     ''{'' @ join '', '' (map (\<lambda>(k, v). py_repr_str k @ '': '' @ py_repr F v) d) @ ''}''"
  by pat_completeness auto
termination
proof (relation "measure (\<lambda>(F, v). size v)", goal_cases)
  case 1
  show ?case by simp
next
  case (2 F xs x)
  then show ?case
    by (simp add: size_json_elem)
next
  case (3 F d z k v)
  then have "(k, v) \<in> set d"
    by simp
  then show ?case
    by (simp add: size_json_entry)
qed

definition py_str :: "'f float_ops \<Rightarrow> 'f json \<Rightarrow> string" where
  "py_str F v = (case v of JStr s \<Rightarrow> s | _ \<Rightarrow> py_repr F v)"

subsection \<open>\<^verbatim>\<open>json.dumps(envelope, indent=2)\<close>\<close>

text \<open>
  A string is written in double quotes with every character outside the printable
  ASCII range escaped (\<^verbatim>\<open>ensure_ascii\<close>); a non-empty list or dict puts each item on a
  line of its own, two spaces deeper, items separated by a comma and a key from its
  value by a colon and a space; an empty one is \<^verbatim>\<open>[]\<close> or \<^verbatim>\<open>{}\<close>.
\<close>

definition json_char :: "char \<Rightarrow> string" where
  "json_char c =
     (let n = (of_char c :: nat)
      in if c = CHR 0x5C then [CHR 0x5C, CHR 0x5C]
         else if c = CHR 0x22 then [CHR 0x5C, CHR 0x22]
         else if n = 8 then [CHR 0x5C, CHR ''b'']
         else if n = 12 then [CHR 0x5C, CHR ''f'']
         else if n = 10 then [CHR 0x5C, CHR ''n'']
         else if n = 13 then [CHR 0x5C, CHR ''r'']
         else if n = 9 then [CHR 0x5C, CHR ''t'']
         else if n < 32 \<or> 126 < n then [CHR 0x5C, CHR ''u'', CHR ''0'', CHR ''0''] @ hex2 n
         else [c])"

definition json_str :: "string \<Rightarrow> string" where
  "json_str s = [CHR 0x22] @ concat (map json_char s) @ [CHR 0x22]"

definition newline_indent :: "nat \<Rightarrow> string" where
  "newline_indent level = CHR 0x0A # replicate (2 * level) CHR '' ''"

function dumps :: "'f float_ops \<Rightarrow> nat \<Rightarrow> 'f json \<Rightarrow> string" where
  "dumps F level JNull = ''null''"
| "dumps F level (JBool b) = (if b then ''true'' else ''false'')"
| "dumps F level (JInt i) = int_str i"
| "dumps F level (JFloat x) = float_json F x"
| "dumps F level (JStr s) = json_str s"
| "dumps F level (JArr xs) =
     (if xs = [] then ''[]''
      else ''['' @ newline_indent (Suc level)
        @ join ('','' @ newline_indent (Suc level)) (map (dumps F (Suc level)) xs)
        @ newline_indent level @ '']'')"
| "dumps F level (JObj d) =
     (if d = [] then ''{}''
      else ''{'' @ newline_indent (Suc level)
        @ join ('','' @ newline_indent (Suc level))
            (map (\<lambda>(k, v). json_str k @ '': '' @ dumps F (Suc level) v) d)
        @ newline_indent level @ ''}'')"
  by pat_completeness auto
termination
proof (relation "measure (\<lambda>(F, level, v). size v)", goal_cases)
  case 1
  show ?case by simp
next
  case 2
  then show ?case
    by (simp add: size_json_elem)
next
  case 3
  then show ?case
    by (auto simp: size_json_entry)
qed

section \<open>The result envelope\<close>

text \<open>
  \<^verbatim>\<open>err(code, message, path, remediation)\<close> builds one error; a script prints one
  envelope \<^verbatim>\<open>{"ok", "tool", "errors", "warnings", "result"}\<close> and returns the exit
  status. A run of \<^verbatim>\<open>main\<close> is \<open>Inl\<close> an uncaught exception (nothing is printed) or
  \<open>Inr\<close> the envelope it prints and the status it returns.
\<close>

record err =
  code :: string
  message :: string
  path :: string
  remediation :: string

definition err :: "string \<Rightarrow> string \<Rightarrow> string \<Rightarrow> string \<Rightarrow> err" where
  "err c m p r = \<lparr>code = c, message = m, path = p, remediation = r\<rparr>"

record 'f envelope =
  ok :: bool
  tool :: string
  errors :: "err list"
  warnings :: "string list"
  result :: "(string \<times> 'f json) list"

type_synonym 'f outcome = "py_error + ('f envelope \<times> int)"

definition err_json :: "err \<Rightarrow> 'f json" where
  "err_json e =
     JObj [(''code'', JStr (code e)), (''message'', JStr (message e)),
           (''path'', JStr (path e)), (''remediation'', JStr (remediation e))]"

definition envelope_json :: "'f envelope \<Rightarrow> 'f json" where
  "envelope_json e =
     JObj [(''ok'', JBool (ok e)), (''tool'', JStr (tool e)),
           (''errors'', JArr (map err_json (errors e))),
           (''warnings'', JArr (map JStr (warnings e))),
           (''result'', JObj (result e))]"

text \<open>What is raised when \<^verbatim>\<open>data\<close> is not a dict: \<^verbatim>\<open>data.get\<close> is an
  \<^verbatim>\<open>AttributeError\<close>; a script that first asks \<^verbatim>\<open>key not in data\<close> gets a
  \<^verbatim>\<open>TypeError\<close> there unless \<^verbatim>\<open>data\<close> is a string or a list.\<close>

fun key_in_then_get :: "'f json \<Rightarrow> py_error" where
  "key_in_then_get (JStr s) = AttributeError"
| "key_in_then_get (JArr xs) = AttributeError"
| "key_in_then_get v = TypeError"

section \<open>The payment validators\<close>

subsection \<open>\<^verbatim>\<open>flutterwave-integration/scripts/validate-verify-response.py\<close>\<close>

definition validate_verify_response_main :: "'f float_ops \<Rightarrow> 'f json \<Rightarrow> 'f outcome" where
  "validate_verify_response_main F data0 =
     (case data0 of
        JObj data \<Rightarrow>
          (let errors1 = concat (map (\<lambda>key.
                   if \<not> has_key data key
                   then [err ''MISSING_FIELD'' (''Missing required field: '' @ key) key
                           (''Provide `'' @ key @ ''` in input JSON.'')]
                   else [])
                 [''expected_tx_ref'', ''expected_amount'', ''verify_payload'']);
               payload0 = dict_get_default data ''verify_payload'' (JObj []);
               errors2 = errors1 @
                 (if \<not> is_dict payload0
                  then [err ''INVALID_TYPE'' ''verify_payload must be an object'' ''verify_payload''
                          ''Set verify_payload to a JSON object.'']
                  else []);
               payload = dict_or_empty payload0;
               errors3 = errors2 @ concat (map (\<lambda>key.
                   if \<not> has_key payload key
                   then [err ''MISSING_FIELD'' (''verify_payload missing: '' @ key)
                           (''verify_payload.'' @ key)
                           (''Populate `verify_payload.'' @ key @ ''` from verify API response.'')]
                   else [])
                 [''status'', ''tx_ref'', ''amount''])
           in if eq_str (dict_get data ''order_status'') ''paid''
              then Inr (\<lparr>ok = True, tool = ''validate-verify-response'', errors = [],
                         warnings = [],
                         result = [(''action'', JStr ''no-op''),
                                   (''reason'', JStr ''order already paid''),
                                   (''idempotent'', JBool True)]\<rparr>, 0)
              else
                (let expected_tx_ref = dict_get data ''expected_tx_ref'';
                     expected_amount = dict_get data ''expected_amount'';
                     status = dict_get payload ''status'';
                     tx_ref = dict_get payload ''tx_ref'';
                     amount = dict_get payload ''amount'';
                     errors4 = errors3 @
                       (if is_str expected_tx_ref \<and> is_str tx_ref \<and> tx_ref \<noteq> expected_tx_ref
                        then [err ''TX_REF_MISMATCH''
                                ''verify tx_ref does not match expected tx_ref''
                                ''verify_payload.tx_ref''
                                ''Use stored tx_ref and reject mismatches.'']
                        else []);
                     errors5 = errors4 @
                       (if is_int expected_amount \<and> is_int amount
                           \<and> as_int amount \<noteq> as_int expected_amount
                        then [err ''AMOUNT_MISMATCH''
                                ''verify amount does not match expected amount''
                                ''verify_payload.amount''
                                ''Compare integer smallest-unit amounts from DB and verify payload.'']
                        else [])
                 in if eq_str status ''success-pending-validation''
                    then Inr (\<lparr>ok = True, tool = ''validate-verify-response'', errors = [],
                               warnings = [''await webhook confirmation before fulfillment''],
                               result = [(''action'', JStr ''await-webhook''),
                                         (''settled'', JBool False)]\<rparr>, 0)
                    else
                      (let errors6 = errors5 @
                             (if \<not> eq_str status ''successful''
                              then [err ''INVALID_STATUS''
                                      (''status must be successful for immediate fulfillment, got: ''
                                         @ py_str F status)
                                      ''verify_payload.status''
                                      ''Treat pending/failed statuses as non-settled.'']
                              else [])
                       in if errors6 \<noteq> []
                          then Inr (\<lparr>ok = False, tool = ''validate-verify-response'',
                                     errors = errors6, warnings = [],
                                     result = [(''action'', JStr ''reject'')]\<rparr>, 1)
                          else Inr (\<lparr>ok = True, tool = ''validate-verify-response'',
                                     errors = [], warnings = [],
                                     result = [(''action'', JStr ''mark-paid''),
                                               (''tx_ref'', tx_ref), (''amount'', amount),
                                               (''settled'', JBool True)]\<rparr>, 0))))
      | v \<Rightarrow> Inl (key_in_then_get v))"

subsection \<open>\<^verbatim>\<open>paystack-integration/scripts/check-webhook-contract.py\<close>\<close>

definition check_webhook_contract_main :: "'f float_ops \<Rightarrow> 'f json \<Rightarrow> 'f outcome" where
  "check_webhook_contract_main F data0 =
     (case data0 of
        JObj data \<Rightarrow>
          (let raw_body_enabled = dict_get data ''raw_body_enabled'';
               errors1 =
                 (if raw_body_enabled \<noteq> JBool True
                  then [err ''RAW_BODY_REQUIRED''
                          ''raw_body_enabled must be true for signature verification''
                          ''raw_body_enabled''
                          ''Enable raw body parsing on webhook route before JSON parse.'']
                  else []);
               header_name = dict_get data ''signature_header_name'';
               errors2 = errors1 @
                 (if \<not> eq_str header_name ''x-paystack-signature''
                  then [err ''WRONG_SIGNATURE_HEADER''
                          ''signature_header_name must be x-paystack-signature''
                          ''signature_header_name''
                          ''Read signature from `x-paystack-signature` header.'']
                  else []);
               headers0 = dict_get data ''headers'';
               errors3 = errors2 @
                 (if \<not> is_dict headers0
                  then [err ''INVALID_HEADERS'' ''headers must be an object'' ''headers''
                          ''Provide request headers object.'']
                  else []);
               headers = dict_or_empty headers0;
               signature = dict_get headers ''x-paystack-signature'';
               errors4 = errors3 @
                 (if \<not> truthy F signature
                  then [err ''MISSING_SIGNATURE'' ''Missing x-paystack-signature header''
                          ''headers.x-paystack-signature''
                          ''Require raw body and reject unsigned webhook payloads.'']
                  else [])
           in if eq_str (dict_get data ''order_status'') ''paid''
              then Inr (\<lparr>ok = True, tool = ''check-webhook-contract'', errors = [],
                         warnings = [],
                         result = [(''action'', JStr ''no-op''),
                                   (''reason'', JStr ''order already paid''),
                                   (''idempotent'', JBool True)]\<rparr>, 0)
              else
                (let expected_reference = dict_get data ''expected_reference'';
                     event_reference = dict_get data ''event_reference'';
                     errors5 = errors4 @
                       (if truthy F expected_reference \<and> truthy F event_reference
                           \<and> \<not> py_eq F expected_reference event_reference
                        then [err ''REFERENCE_MISMATCH''
                                ''Webhook reference does not match expected reference''
                                ''event_reference''
                                ''Lookup order by Paystack reference and reject mismatches.'']
                        else []);
                     expected_amount = dict_get data ''expected_amount_kobo'';
                     event_amount = dict_get data ''event_amount_kobo'';
                     errors6 = errors5 @
                       (if is_int expected_amount \<and> is_int event_amount
                           \<and> as_int expected_amount \<noteq> as_int event_amount
                        then [err ''AMOUNT_MISMATCH''
                                ''Webhook amount does not match expected amount''
                                ''event_amount_kobo''
                                ''Compare smallest-unit integers before fulfillment.'']
                        else [])
                 in if errors6 \<noteq> []
                    then Inr (\<lparr>ok = False, tool = ''check-webhook-contract'', errors = errors6,
                               warnings = [], result = [(''action'', JStr ''reject'')]\<rparr>, 1)
                    else Inr (\<lparr>ok = True, tool = ''check-webhook-contract'', errors = [],
                               warnings = [],
                               result = [(''action'', JStr ''process-webhook''),
                                         (''signature_header'', JStr ''x-paystack-signature'')]\<rparr>,
                              0)))
      | v \<Rightarrow> Inl AttributeError)"

subsection \<open>\<^verbatim>\<open>paystack-integration/scripts/validate-payment-contract.py\<close>\<close>

definition validate_payment_contract_main :: "'f float_ops \<Rightarrow> 'f json \<Rightarrow> 'f outcome" where
  "validate_payment_contract_main F data0 =
     (case data0 of
        JObj data \<Rightarrow>
          (let warnings0 = [];
               required_root = [''expected_reference'', ''expected_amount_kobo'', ''verify_payload''];
               errors1 = concat (map (\<lambda>key.
                   if \<not> has_key data key
                   then [err ''MISSING_FIELD'' (''Missing required field: '' @ key) key
                           (''Provide `'' @ key @ ''` in input JSON.'')]
                   else [])
                 required_root);
               verify_payload0 = dict_get_default data ''verify_payload'' (JObj []);
               errors2 = errors1 @
                 (if \<not> is_dict verify_payload0
                  then [err ''INVALID_TYPE'' ''verify_payload must be an object'' ''verify_payload''
                          ''Set `verify_payload` to a JSON object.'']
                  else []);
               verify_payload = dict_or_empty verify_payload0;
               errors3 = errors2 @ concat (map (\<lambda>key.
                   if \<not> has_key verify_payload key
                   then [err ''MISSING_FIELD'' (''verify_payload missing: '' @ key)
                           (''verify_payload.'' @ key)
                           (''Populate `verify_payload.'' @ key
                              @ ''` from Paystack verify response.'')]
                   else [])
                 [''status'', ''reference'', ''amount'']);
               order_status = dict_get data ''order_status''
           in if eq_str order_status ''paid''
              then Inr (\<lparr>ok = True, tool = ''validate-payment-contract'', errors = [],
                         warnings = warnings0,
                         result = [(''action'', JStr ''no-op''),
                                   (''reason'', JStr ''order already paid''),
                                   (''idempotent'', JBool True)]\<rparr>, 0)
              else
                (let expected_reference = dict_get data ''expected_reference'';
                     expected_amount = dict_get data ''expected_amount_kobo'';
                     status = dict_get verify_payload ''status'';
                     actual_reference = dict_get verify_payload ''reference'';
                     actual_amount = dict_get verify_payload ''amount'';
                     errors4 = errors3 @
                       (if is_str expected_reference \<and> is_str actual_reference
                           \<and> actual_reference \<noteq> expected_reference
                        then [err ''REFERENCE_MISMATCH''
                                ''Verified reference does not match expected reference''
                                ''verify_payload.reference''
                                ''Use Paystack returned reference from initialization and verify against DB.'']
                        else []);
                     errors5 = errors4 @
                       (if is_int expected_amount \<and> is_int actual_amount
                           \<and> as_int actual_amount \<noteq> as_int expected_amount
                        then [err ''AMOUNT_MISMATCH''
                                ''Verified amount does not match expected amount''
                                ''verify_payload.amount''
                                ''Store expected amount in kobo and compare exact integer values.'']
                        else []);
                     errors6 = errors5 @
                       (if \<not> eq_str status ''success''
                        then [err ''INVALID_STATUS''
                                (''Verified status must be success, got: '' @ py_str F status)
                                ''verify_payload.status''
                                ''Do not fulfill order unless verify status is `success`.'']
                        else [])
                 in if errors6 \<noteq> []
                    then Inr (\<lparr>ok = False, tool = ''validate-payment-contract'',
                               errors = errors6, warnings = warnings0,
                               result = [(''action'', JStr ''reject'')]\<rparr>, 1)
                    else Inr (\<lparr>ok = True, tool = ''validate-payment-contract'', errors = [],
                               warnings = warnings0,
                               result = [(''action'', JStr ''mark-paid''),
                                         (''idempotent'', JBool False),
                                         (''reference'', actual_reference),
                                         (''amount_kobo'', actual_amount)]\<rparr>, 0)))
      | v \<Rightarrow> Inl (key_in_then_get v))"

subsection \<open>\<^verbatim>\<open>flutterwave-integration/scripts/check-webhook-signature-mode.py\<close>\<close>

definition VALID_MODES :: "string set" where
  "VALID_MODES = {''verif-hash'', ''hmac-sha256''}"

text \<open>\<^verbatim>\<open>mode not in VALID_MODES\<close> hashes \<^verbatim>\<open>mode\<close>: a list or a dict is not hashable
  (\<^verbatim>\<open>TypeError\<close>); of the other values only a string can be a member. The order in
  which a process iterates over the set depends on its hash seed: it is the parameter
  \<open>modes_order\<close>, which \<^verbatim>\<open>sorted(VALID_MODES)\<close> sorts.\<close>

definition check_webhook_signature_mode_main ::
  "'f float_ops \<Rightarrow> string list \<Rightarrow> 'f json \<Rightarrow> 'f outcome" where
  "check_webhook_signature_mode_main F modes_order data0 =
     (case data0 of
        JObj data \<Rightarrow>
          (let mode = dict_get data ''signature_mode''
           in if is_list mode \<or> is_dict mode then Inl TypeError
              else
                (let errors1 =
                       (if \<not> (case mode of JStr s \<Rightarrow> s \<in> VALID_MODES | _ \<Rightarrow> False)
                        then [err ''INVALID_SIGNATURE_MODE''
                                (''signature_mode must be one of ''
                                   @ py_repr F (JArr (map JStr (sort modes_order))))
                                ''signature_mode''
                                ''Set signature mode to `verif-hash` or `hmac-sha256`.'']
                        else []);
                     headers0 = dict_get data ''headers'';
                     errors2 = errors1 @
                       (if \<not> is_dict headers0
                        then [err ''INVALID_HEADERS'' ''headers must be an object'' ''headers''
                                ''Provide webhook request headers object.'']
                        else []);
                     headers = dict_or_empty headers0;
                     errors3 = errors2 @
                       (if eq_str mode ''verif-hash'' \<and> \<not> truthy F (dict_get headers ''verif-hash'')
                        then [err ''MISSING_VERIF_HASH'' ''Missing verif-hash header''
                                ''headers.verif-hash''
                                ''Configure FLW_SECRET_HASH and require verif-hash header.'']
                        else []);
                     errors4 = errors3 @
                       (if eq_str mode ''hmac-sha256''
                        then (if dict_get data ''raw_body_enabled'' \<noteq> JBool True
                              then [err ''RAW_BODY_REQUIRED''
                                      ''raw_body_enabled must be true for hmac-sha256 mode''
                                      ''raw_body_enabled''
                                      ''Enable raw body capture before parsing JSON payload.'']
                              else [])
                           @ (if \<not> truthy F (dict_get headers ''x-flutterwave-signature'')
                              then [err ''MISSING_HMAC_HEADER''
                                      ''Missing x-flutterwave-signature header''
                                      ''headers.x-flutterwave-signature''
                                      ''Require x-flutterwave-signature for HMAC mode.'']
                              else [])
                        else [])
                 in if errors4 \<noteq> []
                    then Inr (\<lparr>ok = False, tool = ''check-webhook-signature-mode'',
                               errors = errors4, warnings = [],
                               result = [(''action'', JStr ''reject'')]\<rparr>, 1)
                    else Inr (\<lparr>ok = True, tool = ''check-webhook-signature-mode'',
                               errors = [], warnings = [],
                               result = [(''action'', JStr ''process-webhook''),
                                         (''signature_mode'', mode)]\<rparr>, 0)))
      | v \<Rightarrow> Inl AttributeError)"

section \<open>The social-login validators\<close>

subsection \<open>\<^verbatim>\<open>social-auth-core/scripts/translate-provider-credentials.py\<close>\<close>

record provider_requirement =
  required :: "string list"
  env :: "(string \<times> string) list"

definition PROVIDER_REQUIREMENTS :: "(string \<times> provider_requirement) list" where
  "PROVIDER_REQUIREMENTS =
     [(''google'',
         \<lparr>required = [''client_id'', ''client_secret''],
          env = [(''client_id'', ''GOOGLE_CLIENT_ID''), (''client_secret'', ''GOOGLE_CLIENT_SECRET'')]\<rparr>),
      (''github'',
         \<lparr>required = [''client_id'', ''client_secret''],
          env = [(''client_id'', ''GITHUB_CLIENT_ID''), (''client_secret'', ''GITHUB_CLIENT_SECRET'')]\<rparr>),
      (''linkedin'',
         \<lparr>required = [''client_id'', ''client_secret''],
          env = [(''client_id'', ''LINKEDIN_CLIENT_ID''),
                 (''client_secret'', ''LINKEDIN_CLIENT_SECRET'')]\<rparr>),
      (''apple'',
         \<lparr>required = [''client_id'', ''team_id'', ''key_id'', ''private_key''],
          env = [(''client_id'', ''APPLE_CLIENT_ID''), (''team_id'', ''APPLE_TEAM_ID''),
                 (''key_id'', ''APPLE_KEY_ID''), (''private_key'', ''APPLE_PRIVATE_KEY'')]\<rparr>),
      (''twitter'',
         \<lparr>required = [''client_id'', ''client_secret''],
          env = [(''client_id'', ''TWITTER_CLIENT_ID''),
                 (''client_secret'', ''TWITTER_CLIENT_SECRET'')]\<rparr>)]"

text \<open>
  The loop \<^verbatim>\<open>for key in req["required"]\<close> over the keys still to visit, with the
  errors and the \<^verbatim>\<open>mapped\<close> dict so far: a key whose \<^verbatim>\<open>creds.get(key)\<close> is falsy
  appends an error, any other key stores \<^verbatim>\<open>mapped[req["env"][key]] = str(creds[key])\<close>
  (a \<^verbatim>\<open>KeyError\<close> if \<^verbatim>\<open>env\<close> had no such key).
\<close>

fun required_loop ::
  "'f float_ops \<Rightarrow> string \<Rightarrow> provider_requirement \<Rightarrow> (string \<times> 'f json) list \<Rightarrow> string list
     \<Rightarrow> err list \<times> (string \<times> string) list \<Rightarrow> py_error + (err list \<times> (string \<times> string) list)" where
  "required_loop F provider req creds [] (errors0, mapped) = Inr (errors0, mapped)"
| "required_loop F provider req creds (key # keys) (errors0, mapped) =
     (if \<not> truthy F (dict_get creds key)
      then required_loop F provider req creds keys
             (errors0 @ [err ''MISSING_CREDENTIAL'' (''Missing required credential: '' @ key)
                           (''credentials.'' @ key)
                           (''Provide `'' @ key @ ''` for provider `'' @ provider @ ''`.'')],
              mapped)
      else (case map_of (env req) key of
              None \<Rightarrow> Inl KeyError
            | Some name \<Rightarrow>
                required_loop F provider req creds keys
                  (errors0, AList.update name (py_str F (dict_get creds key)) mapped)))"

text \<open>\<^verbatim>\<open>provider = str(data.get("provider", "")).strip().lower()\<close>.\<close>

definition normalized_provider :: "'f float_ops \<Rightarrow> (string \<times> 'f json) list \<Rightarrow> string" where
  "normalized_provider F data =
     py_lower (py_strip (py_str F (dict_get_default data ''provider'' (JStr []))))"

definition translate_provider_credentials_main :: "'f float_ops \<Rightarrow> 'f json \<Rightarrow> 'f outcome" where
  "translate_provider_credentials_main F data0 =
     (case data0 of
        JObj data \<Rightarrow>
          (let provider = normalized_provider F data;
               creds0 = dict_get data ''credentials'';
               errors1 =
                 (if \<not> has_key PROVIDER_REQUIREMENTS provider
                  then [err ''UNSUPPORTED_PROVIDER'' (''Unsupported provider: '' @ provider)
                          ''provider'' ''Use one of: google, github, linkedin, apple, twitter.'']
                  else []);
               errors2 = errors1 @
                 (if \<not> is_dict creds0
                  then [err ''INVALID_CREDENTIALS'' ''credentials must be an object'' ''credentials''
                          ''Provide provider credentials as a JSON object.'']
                  else []);
               creds = dict_or_empty creds0
           in if errors2 \<noteq> []
              then Inr (\<lparr>ok = False, tool = ''translate-provider-credentials'', errors = errors2,
                         warnings = [], result = []\<rparr>, 1)
              else
                (case map_of PROVIDER_REQUIREMENTS provider of
                   None \<Rightarrow> Inl KeyError
                 | Some req \<Rightarrow>
                     (case required_loop F provider req creds (required req) (errors2, []) of
                        Inl e \<Rightarrow> Inl e
                      | Inr (errors3, mapped) \<Rightarrow>
                          if errors3 \<noteq> []
                          then Inr (\<lparr>ok = False, tool = ''translate-provider-credentials'',
                                     errors = errors3, warnings = [],
                                     result = [(''provider'', JStr provider)]\<rparr>, 1)
                          else Inr (\<lparr>ok = True, tool = ''translate-provider-credentials'',
                                     errors = [], warnings = [],
                                     result = [(''provider'', JStr provider),
                                               (''env_mapping'',
                                                  JObj (map (\<lambda>(k, v). (k, JStr v)) mapped))]\<rparr>,
                                    0))))
      | v \<Rightarrow> Inl AttributeError)"

subsection \<open>\<^verbatim>\<open>social-auth-core/scripts/validate-output-schema.py\<close>\<close>

definition REQUIRED_ROOT :: "string list" where
  "REQUIRED_ROOT = [''summary'', ''artifacts'', ''next_actions'', ''machine_json'']"

definition REQUIRED_MACHINE :: "string list" where
  "REQUIRED_MACHINE = [''decisions'', ''risks'', ''required_inputs'', ''validation_results'']"

text \<open>The loop \<^verbatim>\<open>for idx, item in enumerate(results)\<close>, from index \<^verbatim>\<open>idx\<close> on.\<close>

fun validation_results_loop :: "nat \<Rightarrow> 'f json list \<Rightarrow> err list" where
  "validation_results_loop idx [] = []"
| "validation_results_loop idx (item # items) =
     (if \<not> is_dict item
      then [err ''INVALID_ITEM'' ''validation_results item must be object''
              (''machine_json.validation_results['' @ nat_str idx @ '']'')
              ''Use object with name and ok fields.'']
      else if \<not> has_key (dict_or_empty item) ''name'' \<or> \<not> has_key (dict_or_empty item) ''ok''
      then [err ''MISSING_FIELD'' ''validation_results item requires name and ok''
              (''machine_json.validation_results['' @ nat_str idx @ '']'')
              ''Add `name` and `ok` fields.'']
      else [])
     @ validation_results_loop (Suc idx) items"

definition validate_output_schema_main :: "'f json \<Rightarrow> 'f outcome" where
  "validate_output_schema_main data0 =
     (case data0 of
        JObj data \<Rightarrow>
          (let errors1 = concat (map (\<lambda>key.
                   if \<not> has_key data key
                   then [err ''MISSING_FIELD'' (''Missing root field: '' @ key) key
                           (''Add `'' @ key @ ''` to output.'')]
                   else [])
                 REQUIRED_ROOT);
               machine0 = dict_get data ''machine_json'';
               errors2 = errors1 @
                 (if \<not> is_dict machine0
                  then [err ''INVALID_TYPE'' ''machine_json must be an object'' ''machine_json''
                          ''Set machine_json to an object.'']
                  else []);
               machine = dict_or_empty machine0;
               errors3 = errors2 @ concat (map (\<lambda>key.
                   if \<not> has_key machine key
                   then [err ''MISSING_FIELD'' (''machine_json missing: '' @ key)
                           (''machine_json.'' @ key)
                           (''Add `machine_json.'' @ key @ ''` to output.'')]
                   else [])
                 REQUIRED_MACHINE);
               errors4 = errors3 @
                 (if (case dict_get data ''summary'' of JStr s \<Rightarrow> py_strip s = [] | _ \<Rightarrow> False)
                  then [err ''EMPTY_SUMMARY'' ''summary must be non-empty'' ''summary''
                          ''Provide a concise summary sentence.'']
                  else []);
               errors5 = errors4 @ concat (map (\<lambda>arr_key.
                   (let arr = dict_get data arr_key
                    in if arr \<noteq> JNull \<and> \<not> is_list arr
                       then [err ''INVALID_TYPE'' (arr_key @ '' must be an array'') arr_key
                               (''Set `'' @ arr_key @ ''` to an array of strings.'')]
                       else []))
                 [''artifacts'', ''next_actions'']);
               results = dict_get machine ''validation_results'';
               errors6 = errors5 @
                 (if results \<noteq> JNull
                  then (case results of
                          JArr items \<Rightarrow> validation_results_loop 0 items
                        | _ \<Rightarrow> [err ''INVALID_TYPE'' ''validation_results must be an array''
                                 ''machine_json.validation_results''
                                 ''Provide array of {name, ok, details?}.''])
                  else [])
           in if errors6 \<noteq> []
              then Inr (\<lparr>ok = False, tool = ''validate-output-schema'', errors = errors6,
                         warnings = [], result = [(''action'', JStr ''fix-output'')]\<rparr>, 1)
              else Inr (\<lparr>ok = True, tool = ''validate-output-schema'', errors = [],
                         warnings = [], result = [(''action'', JStr ''schema-valid'')]\<rparr>, 0))
      | v \<Rightarrow> Inl (key_in_then_get v))"

subsection \<open>\<^verbatim>\<open>urllib.parse.urlparse\<close>\<close>

text \<open>
  \<^verbatim>\<open>validate-redirect-uri.py\<close> reads \<^verbatim>\<open>scheme\<close>, \<^verbatim>\<open>hostname\<close> and \<^verbatim>\<open>path\<close> of
  \<^verbatim>\<open>urlparse(url)\<close>. The model follows the standard library (CPython 3.12):
  \<^verbatim>\<open>urlsplit\<close> drops leading control characters and spaces and every tab, carriage
  return and line feed, splits off a scheme, then a network location after \<^verbatim>\<open>//\<close>,
  then the fragment and the query; \<^verbatim>\<open>urlparse\<close> splits the parameters off the last
  path segment. A \<^verbatim>\<open>ValueError\<close> is raised for unmatched brackets in the network
  location and for a bracketed host that is not an IPv6 or IPvFuture address; that
  last test is the parameter \<open>bracketed_host_ok\<close>. The field \<^verbatim>\<open>path\<close> is \<open>urlpath\<close>
  here.
\<close>

record parse_result =
  scheme :: string
  netloc :: string
  urlpath :: string
  params :: string
  query :: string
  fragment :: string

definition is_ascii_alpha :: "char \<Rightarrow> bool" where
  "is_ascii_alpha c =
     (let n = (of_char c :: nat) in (65 \<le> n \<and> n \<le> 90) \<or> (97 \<le> n \<and> n \<le> 122))"

definition is_scheme_char :: "char \<Rightarrow> bool" where
  "is_scheme_char c =
     (let n = (of_char c :: nat)
      in is_ascii_alpha c \<or> (48 \<le> n \<and> n \<le> 57) \<or> c = CHR ''+'' \<or> c = CHR ''-'' \<or> c = CHR ''.'')"

definition uses_params :: "string list" where
  "uses_params = ['''', ''ftp'', ''hdl'', ''prospero'', ''http'', ''imap'', ''https'', ''shttp'',
                  ''rtsp'', ''rtspu'', ''sip'', ''sips'', ''mms'', ''sftp'', ''tel'']"

text \<open>\<^verbatim>\<open>s.partition(c)\<close>: the text before the first \<^verbatim>\<open>c\<close> and the text after it
  (all of \<^verbatim>\<open>s\<close> and nothing when \<^verbatim>\<open>c\<close> does not occur).\<close>

definition before_first :: "char \<Rightarrow> string \<Rightarrow> string" where
  "before_first c s = takeWhile (\<lambda>x. x \<noteq> c) s"

definition after_first :: "char \<Rightarrow> string \<Rightarrow> string" where
  "after_first c s = drop 1 (dropWhile (\<lambda>x. x \<noteq> c) s)"

text \<open>The scheme: the text before the first colon, when it is not empty, starts with an
  ASCII letter and has scheme characters only.\<close>

definition split_scheme :: "string \<Rightarrow> string \<times> string" where
  "split_scheme url =
     (let head = before_first CHR '':'' url
      in if CHR '':'' \<in> set url \<and> head \<noteq> [] \<and> is_ascii_alpha (hd url) \<and> list_all is_scheme_char head
         then (py_lower head, after_first CHR '':'' url)
         else ([], url))"

text \<open>\<^verbatim>\<open>_splitnetloc(url, 2)\<close>: the network location runs to the first of \<^verbatim>\<open>/ ? #\<close>.\<close>

definition splitnetloc :: "string \<Rightarrow> string \<times> string" where
  "splitnetloc url =
     (let is_delim = (\<lambda>c. c = CHR ''/'' \<or> c = CHR ''?'' \<or> c = CHR ''#'');
          rest = drop 2 url
      in (takeWhile (\<lambda>c. \<not> is_delim c) rest, dropWhile (\<lambda>c. \<not> is_delim c) rest))"

definition urlsplit :: "(string \<Rightarrow> bool) \<Rightarrow> string \<Rightarrow> py_error + parse_result" where
  "urlsplit bracketed_host_ok url0 =
     (let url1 = dropWhile (\<lambda>c. (of_char c :: nat) \<le> 32) url0;
          url2 = filter (\<lambda>c. (of_char c :: nat) \<notin> {9, 13, 10}) url1;
          (scheme0, url3) = split_scheme url2;
          has_netloc = (take 2 url3 = ''//'');
          (netloc0, url4) = (if has_netloc then splitnetloc url3 else ([], url3));
          opening = (CHR ''['' \<in> set netloc0);
          closing = (CHR '']'' \<in> set netloc0)
      in if has_netloc \<and> ((opening \<and> \<not> closing) \<or> (closing \<and> \<not> opening)) then Inl ValueError
         else if has_netloc \<and> opening \<and> closing
                 \<and> \<not> bracketed_host_ok (before_first CHR '']'' (after_first CHR ''['' netloc0))
         then Inl ValueError
         else
           (let fragment0 = after_first CHR ''#'' url4;
                url5 = before_first CHR ''#'' url4;
                query0 = after_first CHR ''?'' url5;
                url6 = before_first CHR ''?'' url5
            in Inr \<lparr>scheme = scheme0, netloc = netloc0, urlpath = url6, params = [],
                     query = query0, fragment = fragment0\<rparr>))"

text \<open>\<^verbatim>\<open>_splitparams(url)\<close>, called when \<^verbatim>\<open>url\<close> has a semicolon: the split is at the
  first semicolon of the last segment (after the last slash), if there is one.\<close>

definition splitparams :: "string \<Rightarrow> string \<times> string" where
  "splitparams url =
     (if CHR ''/'' \<in> set url
      then (let segment = rev (takeWhile (\<lambda>c. c \<noteq> CHR ''/'') (rev url));
                front = take (length url - length segment) url
            in if CHR '';'' \<in> set segment
               then (front @ before_first CHR '';'' segment, after_first CHR '';'' segment)
               else (url, []))
      else (before_first CHR '';'' url, after_first CHR '';'' url))"

definition urlparse :: "(string \<Rightarrow> bool) \<Rightarrow> string \<Rightarrow> py_error + parse_result" where
  "urlparse bracketed_host_ok url =
     (case urlsplit bracketed_host_ok url of
        Inl e \<Rightarrow> Inl e
      | Inr sr \<Rightarrow>
          (if scheme sr \<in> set uses_params \<and> CHR '';'' \<in> set (urlpath sr)
           then (let (p, prm) = splitparams (urlpath sr) in Inr (sr\<lparr>urlpath := p, params := prm\<rparr>))
           else Inr sr))"

text \<open>The property \<^verbatim>\<open>hostname\<close>: the network location after its last \<^verbatim>\<open>@\<close>, up to the
  port (inside the brackets if it has one), in lower case up to a \<^verbatim>\<open>%\<close> zone;
  \<^verbatim>\<open>None\<close> when that is empty.\<close>

definition hostname :: "parse_result \<Rightarrow> string option" where
  "hostname r =
     (let hostinfo = rev (takeWhile (\<lambda>c. c \<noteq> CHR ''@'') (rev (netloc r)));
          host = (if CHR ''['' \<in> set hostinfo
                  then before_first CHR '']'' (after_first CHR ''['' hostinfo)
                  else before_first CHR '':'' hostinfo)
      in if host = [] then None
         else Some (py_lower (before_first CHR ''%'' host) @ dropWhile (\<lambda>c. c \<noteq> CHR ''%'') host))"

subsection \<open>\<^verbatim>\<open>social-auth-core/scripts/validate-redirect-uri.py\<close>\<close>

text \<open>A hostname as the result dict holds it, and \<^verbatim>\<open>bool(hostname)\<close>.\<close>

definition host_json :: "string option \<Rightarrow> 'f json" where
  "host_json h = (case h of None \<Rightarrow> JNull | Some s \<Rightarrow> JStr s)"

definition host_truthy :: "string option \<Rightarrow> bool" where
  "host_truthy h = (case h of None \<Rightarrow> False | Some s \<Rightarrow> s \<noteq> [])"

definition validate_redirect_uri_main ::
  "'f float_ops \<Rightarrow> (string \<Rightarrow> bool) \<Rightarrow> 'f json \<Rightarrow> 'f outcome" where
  "validate_redirect_uri_main F bracketed_host_ok data0 =
     (case data0 of
        JObj data \<Rightarrow>
          (let backend_base_url = dict_get data ''backend_base_url'';
               redirect_uri = dict_get data ''redirect_uri'';
               errors1 =
                 (if \<not> truthy F backend_base_url
                  then [err ''MISSING_FIELD'' ''Missing backend_base_url'' ''backend_base_url''
                          ''Provide backend_base_url (e.g., https://api.example.com).'']
                  else [])
                 @ (if \<not> truthy F redirect_uri
                    then [err ''MISSING_FIELD'' ''Missing redirect_uri'' ''redirect_uri''
                            ''Provide redirect_uri exactly as configured with provider.'']
                    else [])
           in if errors1 \<noteq> []
              then Inr (\<lparr>ok = False, tool = ''validate-redirect-uri'', errors = errors1,
                         warnings = [], result = []\<rparr>, 1)
              else
                (case urlparse bracketed_host_ok (py_str F backend_base_url) of
                   Inl e \<Rightarrow> Inl e
                 | Inr b \<Rightarrow>
                     (case urlparse bracketed_host_ok (py_str F redirect_uri) of
                        Inl e \<Rightarrow> Inl e
                      | Inr r \<Rightarrow>
                          (let errors2 = errors1 @
                                 (if scheme b \<notin> {''http'', ''https''}
                                  then [err ''INVALID_URL''
                                          ''backend_base_url must include http/https scheme''
                                          ''backend_base_url'' ''Use a fully qualified URL.'']
                                  else [])
                                 @ (if scheme r \<notin> {''http'', ''https''}
                                    then [err ''INVALID_URL''
                                            ''redirect_uri must include http/https scheme''
                                            ''redirect_uri'' ''Use a fully qualified callback URL.'']
                                    else []);
                               localhost_hosts = {Some ''localhost'', Some ''127.0.0.1''};
                               is_local = (hostname r \<in> localhost_hosts);
                               errors3 = errors2 @
                                 (if scheme r \<noteq> ''https'' \<and> \<not> is_local
                                  then [err ''INSECURE_REDIRECT''
                                          ''redirect_uri must use https outside localhost''
                                          ''redirect_uri''
                                          ''Use HTTPS callback URLs in non-local environments.'']
                                  else []);
                               errors4 = errors3 @
                                 (if host_truthy (hostname b) \<and> host_truthy (hostname r)
                                     \<and> hostname b \<noteq> hostname r
                                  then [err ''DOMAIN_MISMATCH''
                                          ''redirect_uri host does not match backend host''
                                          ''redirect_uri''
                                          ''Point redirect_uri to backend callback domain, not frontend domain.'']
                                  else []);
                               errors5 = errors4 @
                                 (if \<not> py_contains ''/callback'' (urlpath r)
                                  then [err ''UNEXPECTED_PATH''
                                          ''redirect_uri path should include callback endpoint''
                                          ''redirect_uri''
                                          ''Use a provider callback path such as /auth/{provider}/callback.'']
                                  else [])
                           in if errors5 \<noteq> []
                              then Inr (\<lparr>ok = False, tool = ''validate-redirect-uri'',
                                         errors = errors5, warnings = [], result = []\<rparr>, 1)
                              else Inr (\<lparr>ok = True, tool = ''validate-redirect-uri'',
                                         errors = [], warnings = [],
                                         result = [(''backend_host'', host_json (hostname b)),
                                                   (''redirect_host'', host_json (hostname r)),
                                                   (''redirect_path'', JStr (urlpath r)),
                                                   (''action'', JStr ''redirect-uri-valid'')]\<rparr>,
                                        0)))))
      | v \<Rightarrow> Inl AttributeError)"

section \<open>A run of a script\<close>

text \<open>
  \<^verbatim>\<open>load_payload\<close> reads the file named by the first command-line argument if there is
  one, standard input otherwise; what is read cannot be opened, is not JSON, or is a
  document. \<open>modes_order\<close> is the order in which this process iterates over
  \<^verbatim>\<open>VALID_MODES\<close>. An uncaught exception ends the process with status 1 and nothing on
  standard output; otherwise the process prints the envelope and exits with the
  status \<^verbatim>\<open>main\<close> returns (\<^verbatim>\<open>raise SystemExit(main())\<close>).
\<close>

datatype 'f source = Unreadable | Malformed | Document "'f json"

record 'f environment =
  argv :: "string list"
  files :: "string \<Rightarrow> 'f source"
  stdin :: "'f source"
  modes_order :: "string list"

fun read_source :: "'f source \<Rightarrow> py_error + 'f json" where
  "read_source Unreadable = Inl OSError"
| "read_source Malformed = Inl JSONDecodeError"
| "read_source (Document d) = Inr d"

definition load_payload :: "'f environment \<Rightarrow> py_error + 'f json" where
  "load_payload e =
     (if length (argv e) > 1 then read_source (files e (argv e ! 1)) else read_source (stdin e))"

datatype validator =
    TranslateProviderCredentials
  | ValidateOutputSchema
  | ValidateRedirectUri
  | CheckWebhookSignatureMode
  | ValidateVerifyResponse
  | CheckWebhookContract
  | ValidatePaymentContract

fun main ::
  "validator \<Rightarrow> 'f float_ops \<Rightarrow> (string \<Rightarrow> bool) \<Rightarrow> string list \<Rightarrow> 'f json \<Rightarrow> 'f outcome" where
  "main TranslateProviderCredentials F h ms data = translate_provider_credentials_main F data"
| "main ValidateOutputSchema F h ms data = validate_output_schema_main data"
| "main ValidateRedirectUri F h ms data = validate_redirect_uri_main F h data"
| "main CheckWebhookSignatureMode F h ms data = check_webhook_signature_mode_main F ms data"
| "main ValidateVerifyResponse F h ms data = validate_verify_response_main F data"
| "main CheckWebhookContract F h ms data = check_webhook_contract_main F data"
| "main ValidatePaymentContract F h ms data = validate_payment_contract_main F data"

text \<open>The standard output and the exit status of the process.\<close>

definition run :: "validator \<Rightarrow> 'f float_ops \<Rightarrow> (string \<Rightarrow> bool) \<Rightarrow> 'f environment \<Rightarrow> string \<times> int" where
  "run v F h e =
     (case load_payload e of
        Inl x \<Rightarrow> ([], 1)
      | Inr data \<Rightarrow>
          (case main v F h (modes_order e) data of
             Inl x \<Rightarrow> ([], 1)
           | Inr (envelope, status) \<Rightarrow>
               (dumps F 0 (envelope_json envelope) @ [CHR 0x0A], status)))"

section \<open>A floating-point arithmetic to run examples with\<close>

text \<open>The arithmetic whose only float is \<^verbatim>\<open>0.0\<close>; the examples below have no float in
  them.\<close>

definition zero_only :: "unit float_ops" where
  "zero_only =
     \<lparr>float_nonzero = (\<lambda>x. False), float_isnan = (\<lambda>x. False), float_eq = (\<lambda>x y. True),
      float_eq_int = (\<lambda>x i. i = 0), float_repr = (\<lambda>x. ''0.0''), float_json = (\<lambda>x. ''0.0'')\<rparr>"

section \<open>Envelopes that agree with their exit status\<close>

text \<open>An outcome is consistent when the envelope it prints has \<^verbatim>\<open>ok\<close> true exactly when
  its \<^verbatim>\<open>errors\<close> list is empty, and the status is 0 when \<^verbatim>\<open>ok\<close> is true and 1 when
  it is false. An uncaught exception prints no envelope.\<close>

definition consistent :: "'f outcome \<Rightarrow> bool" where
  "consistent r =
     (case r of
        Inl x \<Rightarrow> True
      | Inr (envelope, status) \<Rightarrow>
          (ok envelope \<longleftrightarrow> errors envelope = []) \<and> (status = 0 \<longleftrightarrow> ok envelope)
          \<and> (status = 1 \<longleftrightarrow> \<not> ok envelope))"

text \<open>The error the loop of translate-provider-credentials appends for a key.\<close>

definition missing_credential :: "string \<Rightarrow> string \<Rightarrow> err" where
  "missing_credential provider key =
     err ''MISSING_CREDENTIAL'' (''Missing required credential: '' @ key) (''credentials.'' @ key)
       (''Provide `'' @ key @ ''` for provider `'' @ provider @ ''`.'')"

section \<open>Properties\<close>

lemma dict_get_map_of:
  "dict_get d k = (case map_of d k of None \<Rightarrow> JNull | Some v \<Rightarrow> v)"
  by (simp add: dict_get_def dict_get_default_def)

subsection \<open>The outcome of every script is consistent\<close>

lemma consistent_Inl: "consistent (Inl x)"
  by (simp add: consistent_def)

lemma consistent_fail:
  "es \<noteq> [] \<Longrightarrow>
   consistent (Inr (\<lparr>ok = False, tool = t, errors = es, warnings = w, result = r\<rparr>, 1))"
  by (simp add: consistent_def)

lemma consistent_pass:
  "consistent (Inr (\<lparr>ok = True, tool = t, errors = [], warnings = w, result = r\<rparr>, 0))"
  by (simp add: consistent_def)

lemma consistent_if:
  "(c \<Longrightarrow> consistent a) \<Longrightarrow> (\<not> c \<Longrightarrow> consistent b) \<Longrightarrow> consistent (if c then a else b)"
  by simp

lemma consistent_case_sum:
  "(\<And>x. consistent (f x)) \<Longrightarrow> (\<And>y. consistent (g y))
   \<Longrightarrow> consistent (case s of Inl x \<Rightarrow> f x | Inr y \<Rightarrow> g y)"
  by (cases s) simp_all

lemma consistent_case_option:
  "consistent a \<Longrightarrow> (\<And>y. consistent (g y))
   \<Longrightarrow> consistent (case x of None \<Rightarrow> a | Some y \<Rightarrow> g y)"
  by (cases x) simp_all

lemma consistent_case_prod:
  "(\<And>a b. consistent (f a b)) \<Longrightarrow> consistent (case p of (a, b) \<Rightarrow> f a b)"
  by (cases p) simp

lemmas consistent_intros =
  consistent_Inl consistent_fail consistent_pass consistent_if
  consistent_case_sum consistent_case_option consistent_case_prod

text \<open>Each proof follows the branches of \<^verbatim>\<open>main\<close>: a failure envelope is printed under
  \<^verbatim>\<open>if errors:\<close> only, a success envelope has the literal \<^verbatim>\<open>"errors": []\<close>.\<close>

lemma validate_verify_response_consistent:
  "consistent (validate_verify_response_main F data)"
  unfolding validate_verify_response_main_def Let_def
  by (cases data; simp only: json.case; intro consistent_intros; assumption?)

lemma check_webhook_contract_consistent:
  "consistent (check_webhook_contract_main F data)"
  unfolding check_webhook_contract_main_def Let_def
  by (cases data; simp only: json.case; intro consistent_intros; assumption?)

lemma validate_payment_contract_consistent:
  "consistent (validate_payment_contract_main F data)"
  unfolding validate_payment_contract_main_def Let_def
  by (cases data; simp only: json.case; intro consistent_intros; assumption?)

lemma check_webhook_signature_mode_consistent:
  "consistent (check_webhook_signature_mode_main F ms data)"
  unfolding check_webhook_signature_mode_main_def Let_def
  by (cases data; simp only: json.case; intro consistent_intros; assumption?)

lemma translate_provider_credentials_consistent:
  "consistent (translate_provider_credentials_main F data)"
  unfolding translate_provider_credentials_main_def Let_def
  by (cases data; simp only: json.case; intro consistent_intros; assumption?)

lemma validate_output_schema_consistent:
  "consistent (validate_output_schema_main data)"
  unfolding validate_output_schema_main_def Let_def
  by (cases data; simp only: json.case; intro consistent_intros; assumption?)

lemma validate_redirect_uri_consistent:
  "consistent (validate_redirect_uri_main F h data)"
  unfolding validate_redirect_uri_main_def Let_def
  by (cases data; simp only: json.case; intro consistent_intros; assumption?)

lemma main_consistent: "consistent (main v F h ms data)"
  by (cases v)
     (simp_all add: validate_verify_response_consistent check_webhook_contract_consistent
        validate_payment_contract_consistent check_webhook_signature_mode_consistent
        translate_provider_credentials_consistent validate_output_schema_consistent
        validate_redirect_uri_consistent)

text \<open>
  Claim C4. For every validator and every input, the envelope the script prints has
  \<^verbatim>\<open>ok\<close> true if and only if its \<^verbatim>\<open>errors\<close> list is empty, and the exit status of the
  process is 0 if and only if \<^verbatim>\<open>ok\<close> is true, and 1 otherwise. The envelope is the one
  written to standard output.
\<close>

theorem envelope_ok_iff_no_errors:
  assumes "load_payload e = Inr data"
    and "main v F h (modes_order e) data = Inr (envelope, status)"
  shows "fst (run v F h e) = dumps F 0 (envelope_json envelope) @ [CHR 0x0A]
         \<and> (ok envelope \<longleftrightarrow> errors envelope = [])
         \<and> (snd (run v F h e) = 0 \<longleftrightarrow> ok envelope)
         \<and> (snd (run v F h e) = 1 \<longleftrightarrow> \<not> ok envelope)"
proof -
  have "consistent (main v F h (modes_order e) data)"
    by (rule main_consistent)
  with assms(2) have "(ok envelope \<longleftrightarrow> errors envelope = []) \<and> (status = 0 \<longleftrightarrow> ok envelope)
      \<and> (status = 1 \<longleftrightarrow> \<not> ok envelope)"
    by (simp add: consistent_def)
  moreover from assms have "run v F h e = (dumps F 0 (envelope_json envelope) @ [CHR 0x0A], status)"
    by (simp add: run_def)
  ultimately show ?thesis
    by simp
qed

theorem envelope_ok_iff_no_errors_witness:
  "snd (run CheckWebhookContract zero_only (\<lambda>s. True)
          \<lparr>argv = [''check-webhook-contract.py''], files = (\<lambda>p. Unreadable),
           stdin = Document (JObj [(''order_status'', JStr ''unpaid'')]),
           modes_order = [''verif-hash'', ''hmac-sha256'']\<rparr>) = 1"
proof -
  let ?e = "\<lparr>argv = [''check-webhook-contract.py''], files = (\<lambda>p. Unreadable),
             stdin = Document (JObj [(''order_status'', JStr ''unpaid'')]),
             modes_order = [''verif-hash'', ''hmac-sha256'']\<rparr> :: unit environment"
  have loaded: "load_payload ?e = Inr (JObj [(''order_status'', JStr ''unpaid'')])"
    by (simp add: load_payload_def)
  obtain envelope status where
    out: "main CheckWebhookContract zero_only (\<lambda>s. True) (modes_order ?e)
            (JObj [(''order_status'', JStr ''unpaid'')]) = Inr (envelope, status)"
      and failed: "\<not> ok envelope"
    by (simp add: check_webhook_contract_main_def dict_get_map_of eq_str_def Let_def)
  from envelope_ok_iff_no_errors [OF loaded out] failed show ?thesis
    by simp
qed

subsection \<open>An order that is already paid\<close>

text \<open>
  Claim C1. For each of the three payment validators (validate-verify-response,
  check-webhook-contract, validate-payment-contract) and every input object whose
  \<^verbatim>\<open>order_status\<close> is \<^verbatim>\<open>"paid"\<close>, the script prints an envelope with \<^verbatim>\<open>ok\<close> true and
  \<^verbatim>\<open>result.idempotent\<close> true (and exits with status 0), whatever the other fields of
  the input are.
\<close>

theorem paid_short_circuit:
  assumes "map_of data ''order_status'' = Some (JStr ''paid'')"
    and "v \<in> {ValidateVerifyResponse, CheckWebhookContract, ValidatePaymentContract}"
  shows "\<exists>envelope. main v F h ms (JObj data) = Inr (envelope, 0) \<and> ok envelope
            \<and> map_of (result envelope) ''idempotent'' = Some (JBool True)"
  using assms
  by (auto simp: validate_verify_response_main_def check_webhook_contract_main_def
      validate_payment_contract_main_def dict_get_map_of eq_str_def Let_def)

theorem paid_short_circuit_witness:
  "\<exists>envelope. main ValidateVerifyResponse zero_only (\<lambda>s. True) []
       (JObj [(''order_status'', JStr ''paid''), (''expected_amount'', JStr ''ten'')])
         = Inr (envelope, 0)
     \<and> ok envelope \<and> map_of (result envelope) ''idempotent'' = Some (JBool True)"
  using paid_short_circuit
    [of "[(''order_status'', JStr ''paid''), (''expected_amount'', JStr ''ten'')]"
        ValidateVerifyResponse zero_only "\<lambda>s. True" "[]"]
  by simp

subsection \<open>Reading a key\<close>

lemma eq_str_dict_get: "eq_str (dict_get d k) s \<longleftrightarrow> map_of d k = Some (JStr s)"
  by (simp add: eq_str_def dict_get_map_of split: option.split)

lemma eq_str_JStr: "eq_str (JStr a) b \<longleftrightarrow> a = b"
  by (simp add: eq_str_def)

lemma dict_get_Some: "map_of d k = Some v \<Longrightarrow> dict_get d k = v"
  by (simp add: dict_get_map_of)

lemma dict_get_None: "map_of d k = None \<Longrightarrow> dict_get d k = JNull"
  by (simp add: dict_get_map_of)

subsection \<open>The verified status of a Paystack payment\<close>

text \<open>
  Claim C5. For validate-payment-contract, for every input whose \<^verbatim>\<open>order_status\<close> is not
  \<^verbatim>\<open>"paid"\<close>, that has all required root fields and all required \<^verbatim>\<open>verify_payload\<close>
  fields, and in which \<^verbatim>\<open>verify_payload.reference\<close> is the expected reference and
  \<^verbatim>\<open>verify_payload.amount\<close> the expected amount: if \<^verbatim>\<open>verify_payload.status\<close> is
  \<^verbatim>\<open>"success"\<close> the envelope has \<^verbatim>\<open>ok\<close> true and \<^verbatim>\<open>result.action\<close> equal to
  \<^verbatim>\<open>"mark-paid"\<close>; if it is \<^verbatim>\<open>"pending"\<close> the envelope has an error with code
  \<^verbatim>\<open>INVALID_STATUS\<close> and \<^verbatim>\<open>ok\<close> is false.
\<close>

theorem payment_contract_status:
  assumes "map_of data ''order_status'' \<noteq> Some (JStr ''paid'')"
    and "map_of data ''expected_reference'' = Some reference"
    and "map_of data ''expected_amount_kobo'' = Some amount"
    and "map_of data ''verify_payload'' = Some (JObj verify_payload)"
    and "map_of verify_payload ''status'' = Some status"
    and "map_of verify_payload ''reference'' = Some reference"
    and "map_of verify_payload ''amount'' = Some amount"
  shows "(status = JStr ''success'' \<longrightarrow>
            (\<exists>envelope. validate_payment_contract_main F (JObj data) = Inr (envelope, 0)
               \<and> ok envelope \<and> map_of (result envelope) ''action'' = Some (JStr ''mark-paid'')))
       \<and> (status = JStr ''pending'' \<longrightarrow>
            (\<exists>envelope. validate_payment_contract_main F (JObj data) = Inr (envelope, 1)
               \<and> \<not> ok envelope \<and> (\<exists>x \<in> set (errors envelope). code x = ''INVALID_STATUS'')))"
proof -
  have unpaid: "\<not> eq_str (dict_get data ''order_status'') ''paid''"
    using assms(1) by (simp add: eq_str_dict_get)
  show ?thesis
    using assms(2-) unpaid
    by (simp add: validate_payment_contract_main_def eq_str_JStr dict_get_Some
        dict_get_default_def has_key_def err_def Let_def)
qed

theorem payment_contract_status_witness:
  "(\<exists>envelope.
      validate_payment_contract_main zero_only
        (JObj [(''expected_reference'', JStr ''ref_1''), (''expected_amount_kobo'', JInt 5000),
               (''verify_payload'',
                  JObj [(''status'', JStr ''success''), (''reference'', JStr ''ref_1''),
                        (''amount'', JInt 5000)])])
        = Inr (envelope, 0)
      \<and> ok envelope \<and> map_of (result envelope) ''action'' = Some (JStr ''mark-paid''))
   \<and> (\<exists>envelope.
      validate_payment_contract_main zero_only
        (JObj [(''expected_reference'', JStr ''ref_1''), (''expected_amount_kobo'', JInt 5000),
               (''verify_payload'',
                  JObj [(''status'', JStr ''pending''), (''reference'', JStr ''ref_1''),
                        (''amount'', JInt 5000)])])
        = Inr (envelope, 1)
      \<and> \<not> ok envelope \<and> (\<exists>x \<in> set (errors envelope). code x = ''INVALID_STATUS''))"
  using
    payment_contract_status
      [where F = zero_only and reference = "JStr ''ref_1''" and amount = "JInt 5000"
         and status = "JStr ''success''"
         and verify_payload = "[(''status'', JStr ''success''), (''reference'', JStr ''ref_1''),
                                (''amount'', JInt 5000)]"
         and data = "[(''expected_reference'', JStr ''ref_1''), (''expected_amount_kobo'', JInt 5000),
                      (''verify_payload'',
                         JObj [(''status'', JStr ''success''), (''reference'', JStr ''ref_1''),
                               (''amount'', JInt 5000)])]"]
    payment_contract_status
      [where F = zero_only and reference = "JStr ''ref_1''" and amount = "JInt 5000"
         and status = "JStr ''pending''"
         and verify_payload = "[(''status'', JStr ''pending''), (''reference'', JStr ''ref_1''),
                                (''amount'', JInt 5000)]"
         and data = "[(''expected_reference'', JStr ''ref_1''), (''expected_amount_kobo'', JInt 5000),
                      (''verify_payload'',
                         JObj [(''status'', JStr ''pending''), (''reference'', JStr ''ref_1''),
                               (''amount'', JInt 5000)])]"]
  by simp

subsection \<open>A redirect URI on the backend host\<close>

lemmas url_defs =
  urlparse_def urlsplit_def split_scheme_def splitnetloc_def before_first_def after_first_def
  is_ascii_alpha_def is_scheme_char_def py_lower_def lower_char_def uses_params_def
  splitparams_def Let_def

lemma urlparse_backend:
  "urlparse h ''https://api.x.com'' =
     Inr \<lparr>scheme = ''https'', netloc = ''api.x.com'', urlpath = [], params = [], query = [],
          fragment = []\<rparr>"
  by (simp add: url_defs)

lemma urlparse_redirect:
  "urlparse h ''https://api.x.com/auth/google/callback'' =
     Inr \<lparr>scheme = ''https'', netloc = ''api.x.com'', urlpath = ''/auth/google/callback'',
          params = [], query = [], fragment = []\<rparr>"
  by (simp add: url_defs)

lemma hostname_api:
  "hostname \<lparr>scheme = s, netloc = ''api.x.com'', urlpath = p, params = a, query = q, fragment = f\<rparr>
     = Some ''api.x.com''"
  by (simp add: hostname_def before_first_def after_first_def py_lower_def lower_char_def Let_def)

text \<open>
  Claim C6. For validate-redirect-uri, the input
  \<^verbatim>\<open>{"backend_base_url": "https://api.x.com",
    "redirect_uri": "https://api.x.com/auth/google/callback"}\<close>
  yields an envelope with \<^verbatim>\<open>ok\<close> true and \<^verbatim>\<open>result.redirect_path\<close> equal to
  \<^verbatim>\<open>"/auth/google/callback"\<close> (and the exit status 0).
\<close>

theorem redirect_uri_example:
  "\<exists>envelope.
     validate_redirect_uri_main F h
       (JObj [(''backend_base_url'', JStr ''https://api.x.com''),
              (''redirect_uri'', JStr ''https://api.x.com/auth/google/callback'')])
       = Inr (envelope, 0)
     \<and> ok envelope
     \<and> map_of (result envelope) ''redirect_path'' = Some (JStr ''/auth/google/callback'')"
  by (simp add: validate_redirect_uri_main_def dict_get_map_of py_str_def urlparse_backend
      urlparse_redirect hostname_api host_truthy_def host_json_def Let_def)

theorem redirect_uri_example_witness:
  "\<exists>envelope.
     validate_redirect_uri_main zero_only (\<lambda>s. True)
       (JObj [(''backend_base_url'', JStr ''https://api.x.com''),
              (''redirect_uri'', JStr ''https://api.x.com/auth/google/callback'')])
       = Inr (envelope, 0)
     \<and> ok envelope
     \<and> map_of (result envelope) ''redirect_path'' = Some (JStr ''/auth/google/callback'')"
  using redirect_uri_example [of zero_only "\<lambda>s. True"]
  by simp

subsection \<open>The HMAC signature mode\<close>

text \<open>
  Claim C7. For check-webhook-signature-mode, for every input whose \<^verbatim>\<open>signature_mode\<close>
  is \<^verbatim>\<open>"hmac-sha256"\<close>, the envelope has \<^verbatim>\<open>ok\<close> true if and only if
  \<^verbatim>\<open>raw_body_enabled\<close> is the boolean \<^verbatim>\<open>true\<close> and \<^verbatim>\<open>headers\<close> is an object whose
  \<^verbatim>\<open>"x-flutterwave-signature"\<close> entry is present and truthy; when the first condition
  fails the errors list has a \<^verbatim>\<open>RAW_BODY_REQUIRED\<close> error, when the second fails a
  \<^verbatim>\<open>MISSING_HMAC_HEADER\<close> error.
\<close>

theorem hmac_mode:
  assumes "map_of data ''signature_mode'' = Some (JStr ''hmac-sha256'')"
  shows "\<exists>envelope status.
           check_webhook_signature_mode_main F ms (JObj data) = Inr (envelope, status)
         \<and> (ok envelope \<longleftrightarrow>
              map_of data ''raw_body_enabled'' = Some (JBool True)
              \<and> (\<exists>headers v. map_of data ''headers'' = Some (JObj headers)
                    \<and> map_of headers ''x-flutterwave-signature'' = Some v \<and> truthy F v))
         \<and> (map_of data ''raw_body_enabled'' \<noteq> Some (JBool True) \<longrightarrow>
              (\<exists>x \<in> set (errors envelope). code x = ''RAW_BODY_REQUIRED''))
         \<and> (\<not> (\<exists>headers v. map_of data ''headers'' = Some (JObj headers)
                    \<and> map_of headers ''x-flutterwave-signature'' = Some v \<and> truthy F v) \<longrightarrow>
              (\<exists>x \<in> set (errors envelope). code x = ''MISSING_HMAC_HEADER''))"
proof -
  define raw where "raw = dict_get data ''raw_body_enabled''"
  define headers0 where "headers0 = dict_get data ''headers''"
  define sig where "sig = dict_get (dict_or_empty headers0) ''x-flutterwave-signature''"
  have raw: "raw = JBool True \<longleftrightarrow> map_of data ''raw_body_enabled'' = Some (JBool True)"
    by (simp add: raw_def dict_get_map_of split: option.split)
  have hdr: "is_dict headers0 \<and> truthy F sig \<longleftrightarrow>
      (\<exists>headers v. map_of data ''headers'' = Some (JObj headers)
          \<and> map_of headers ''x-flutterwave-signature'' = Some v \<and> truthy F v)"
    by (cases "map_of data ''headers''"; cases headers0)
       (auto simp: sig_def headers0_def dict_get_map_of split: option.splits)
  have nodict: "\<not> is_dict headers0 \<Longrightarrow> \<not> truthy F sig"
    by (cases headers0) (simp_all add: sig_def dict_get_map_of)
  have mode: "dict_get data ''signature_mode'' = JStr ''hmac-sha256''"
    using assms by (simp add: dict_get_Some)
  show ?thesis
    unfolding raw [symmetric] hdr [symmetric]
    using nodict
    by (simp add: check_webhook_signature_mode_main_def mode eq_str_def VALID_MODES_def err_def
        Let_def raw_def [symmetric] headers0_def [symmetric] sig_def [symmetric])
qed

theorem hmac_mode_witness:
  "\<exists>envelope status.
     check_webhook_signature_mode_main zero_only [''hmac-sha256'', ''verif-hash'']
       (JObj [(''signature_mode'', JStr ''hmac-sha256''), (''raw_body_enabled'', JBool True),
              (''headers'', JObj [(''x-flutterwave-signature'', JStr ''t=1,v1=ab'')])])
       = Inr (envelope, status)
     \<and> ok envelope"
  using hmac_mode
    [where F = zero_only and ms = "[''hmac-sha256'', ''verif-hash'']"
       and data = "[(''signature_mode'', JStr ''hmac-sha256''), (''raw_body_enabled'', JBool True),
                    (''headers'', JObj [(''x-flutterwave-signature'', JStr ''t=1,v1=ab'')])]"]
  by simp

subsection \<open>The output is a function of the input document\<close>

text \<open>The only place where a script meets the order of a set is
  \<^verbatim>\<open>sorted(VALID_MODES)\<close>, and sorting forgets it.\<close>

lemma sort_modes_order:
  assumes "set ms = VALID_MODES" and "distinct ms"
  shows "sort ms = sorted_list_of_set VALID_MODES"
proof -
  have "sorted_list_of_set (set ms) = sort (remdups ms)"
    by (rule sorted_list_of_set_sort_remdups)
  with assms show ?thesis
    by (simp add: distinct_remdups_id)
qed

lemma check_webhook_signature_mode_sorted:
  assumes "sort ms1 = sort ms2"
  shows "check_webhook_signature_mode_main F ms1 data = check_webhook_signature_mode_main F ms2 data"
  by (simp only: check_webhook_signature_mode_main_def assms)

lemma main_sorted:
  assumes "sort ms1 = sort ms2"
  shows "main v F h ms1 data = main v F h ms2 data"
  by (cases v) (simp_all add: check_webhook_signature_mode_sorted [OF assms])

text \<open>
  Claim C8. Every validator is deterministic: two runs of the same validator that read
  the same input document print the same text on standard output, byte for byte, and
  exit with the same status. The two runs may get the document from a file or from
  standard input, with any other files around, and may iterate over \<^verbatim>\<open>VALID_MODES\<close>
  in different orders (each order lists the two modes once); the output depends on
  the document alone.
\<close>

theorem same_document_same_output:
  assumes "load_payload e1 = load_payload e2"
    and "set (modes_order e1) = VALID_MODES" and "distinct (modes_order e1)"
    and "set (modes_order e2) = VALID_MODES" and "distinct (modes_order e2)"
  shows "run v F h e1 = run v F h e2"
proof -
  have "sort (modes_order e1) = sort (modes_order e2)"
    using assms(2-) by (simp add: sort_modes_order)
  then have same: "main v F h (modes_order e1) data = main v F h (modes_order e2) data" for data
    by (rule main_sorted)
  show ?thesis
    unfolding run_def assms(1) same ..
qed

theorem same_document_same_output_witness:
  "run CheckWebhookSignatureMode zero_only (\<lambda>s. True)
     \<lparr>argv = [''check-webhook-signature-mode.py'', ''payload.json''],
      files = (\<lambda>p. if p = ''payload.json'' then Document (JObj [(''signature_mode'', JStr ''sha1'')])
                    else Unreadable),
      stdin = Malformed, modes_order = [''verif-hash'', ''hmac-sha256'']\<rparr>
   = run CheckWebhookSignatureMode zero_only (\<lambda>s. True)
     \<lparr>argv = [''check-webhook-signature-mode.py''], files = (\<lambda>p. Unreadable),
      stdin = Document (JObj [(''signature_mode'', JStr ''sha1'')]),
      modes_order = [''hmac-sha256'', ''verif-hash'']\<rparr>"
  by (rule same_document_same_output) (auto simp: load_payload_def VALID_MODES_def)

subsection \<open>The errors of the envelope that is printed\<close>

text \<open>The closing \<^verbatim>\<open>if errors: ... return 1\<close>, else the success envelope: whatever holds
  of the collected errors holds of the errors printed.\<close>

lemma fail_or_pass_errors:
  assumes "P es"
  shows "\<exists>envelope status.
           (if es \<noteq> []
            then Inr (\<lparr>ok = False, tool = t, errors = es, warnings = w, result = r\<rparr>, 1)
            else Inr (\<lparr>ok = True, tool = t', errors = [], warnings = w', result = r'\<rparr>, 0))
             = Inr (envelope :: 'f envelope, status :: int)
           \<and> P (errors envelope)"
  using assms by (cases "es = []") simp_all

lemma all_append: "\<forall>x\<in>set a. P x \<Longrightarrow> \<forall>x\<in>set b. P x \<Longrightarrow> \<forall>x\<in>set (a @ b). P x"
  by auto

lemma all_if:
  "(c \<Longrightarrow> \<forall>x\<in>set a. P x) \<Longrightarrow> (\<not> c \<Longrightarrow> \<forall>x\<in>set b. P x)
   \<Longrightarrow> \<forall>x\<in>set (if c then a else b). P x"
  by simp

lemma all_Nil: "\<forall>x\<in>set []. P x"
  by simp

lemma all_single: "P e \<Longrightarrow> \<forall>x\<in>set [e]. P x"
  by simp

lemma all_concat_map:
  "(\<And>k. k \<in> set ks \<Longrightarrow> \<forall>x\<in>set (f k). P x) \<Longrightarrow> \<forall>x\<in>set (concat (map f ks)). P x"
  by auto

lemmas all_intros = all_append all_if all_Nil all_single all_concat_map

subsection \<open>A summary that is not a string\<close>

lemma validation_results_loop_paths:
  "\<forall>x \<in> set (validation_results_loop idx items).
     path x \<noteq> ''summary'' \<and> code x \<noteq> ''EMPTY_SUMMARY''"
  by (induction idx items rule: validation_results_loop.induct)
     (auto simp: err_def)

lemma validation_results_paths:
  "\<forall>x \<in> set (case results of
       JArr items \<Rightarrow> validation_results_loop 0 items
     | _ \<Rightarrow> [err ''INVALID_TYPE'' m ''machine_json.validation_results'' r]).
     path x \<noteq> ''summary'' \<and> code x \<noteq> ''EMPTY_SUMMARY''"
  by (cases results) (simp_all add: validation_results_loop_paths err_def)

text \<open>
  Claim C10. For validate-output-schema, the \<^verbatim>\<open>EMPTY_SUMMARY\<close> check applies only when
  \<^verbatim>\<open>summary\<close> is a string: for every input whose \<^verbatim>\<open>summary\<close> key is present with a
  value that is not a string (a number, \<^verbatim>\<open>null\<close>, an object, ...) the envelope has no
  error about \<^verbatim>\<open>summary\<close> (none with the path \<^verbatim>\<open>summary\<close>, none with the code
  \<^verbatim>\<open>EMPTY_SUMMARY\<close>), and such an input yields \<^verbatim>\<open>ok\<close> true when all other checks
  pass: with any such value as \<^verbatim>\<open>summary\<close>, empty \<^verbatim>\<open>artifacts\<close> and \<^verbatim>\<open>next_actions\<close>
  and a \<^verbatim>\<open>machine_json\<close> with its four fields the script prints \<^verbatim>\<open>ok\<close> true.
\<close>

theorem nonstring_summary_unchecked:
  assumes "map_of data ''summary'' = Some v" and "\<not> is_str v"
  shows "(\<exists>envelope status. validate_output_schema_main (JObj data) = Inr (envelope, status)
            \<and> (\<forall>x \<in> set (errors envelope). path x \<noteq> ''summary'' \<and> code x \<noteq> ''EMPTY_SUMMARY''))
       \<and> (\<exists>envelope.
            validate_output_schema_main
              (JObj [(''summary'', v), (''artifacts'', JArr []), (''next_actions'', JArr []),
                     (''machine_json'',
                        JObj [(''decisions'', JArr []), (''risks'', JArr []),
                              (''required_inputs'', JArr []), (''validation_results'', JArr [])])])
              = Inr (envelope, 0)
            \<and> ok envelope)"
proof
  have present: "has_key data ''summary''"
    using assms(1) by (simp add: has_key_def)
  have skipped: "(case dict_get data ''summary'' of JStr s \<Rightarrow> py_strip s = [] | _ \<Rightarrow> False) = False"
    using assms by (cases v) (simp_all add: dict_get_Some)
  show "\<exists>envelope status. validate_output_schema_main (JObj data) = Inr (envelope, status)
            \<and> (\<forall>x \<in> set (errors envelope). path x \<noteq> ''summary'' \<and> code x \<noteq> ''EMPTY_SUMMARY'')"
    unfolding validate_output_schema_main_def Let_def
    apply (simp only: json.case skipped if_False)
    apply (rule fail_or_pass_errors
        [where P = "\<lambda>es. \<forall>x \<in> set es. path x \<noteq> ''summary'' \<and> code x \<noteq> ''EMPTY_SUMMARY''"])
    apply (intro all_intros validation_results_paths)
    using present
    apply (auto simp: err_def)
    done
next
  have skipped: "(case v of JStr s \<Rightarrow> py_strip s = [] | _ \<Rightarrow> False) = False"
    using assms(2) by (cases v) simp_all
  show "\<exists>envelope.
            validate_output_schema_main
              (JObj [(''summary'', v), (''artifacts'', JArr []), (''next_actions'', JArr []),
                     (''machine_json'',
                        JObj [(''decisions'', JArr []), (''risks'', JArr []),
                              (''required_inputs'', JArr []), (''validation_results'', JArr [])])])
              = Inr (envelope, 0)
            \<and> ok envelope"
    by (simp add: validate_output_schema_main_def REQUIRED_ROOT_def REQUIRED_MACHINE_def
        dict_get_map_of has_key_def skipped Let_def)
qed

theorem nonstring_summary_unchecked_witness:
  "(\<exists>envelope status.
      validate_output_schema_main
        (JObj [(''summary'', JInt 42), (''artifacts'', JStr ''none'')] :: unit json)
        = Inr (envelope, status)
      \<and> map path (errors envelope) =
          [''next_actions'', ''machine_json'', ''machine_json'', ''machine_json.decisions'',
           ''machine_json.risks'', ''machine_json.required_inputs'',
           ''machine_json.validation_results'', ''artifacts''])
   \<and> (\<exists>envelope.
        validate_output_schema_main
          (JObj [(''summary'', JInt 42), (''artifacts'', JArr []), (''next_actions'', JArr []),
                 (''machine_json'',
                    JObj [(''decisions'', JArr []), (''risks'', JArr []),
                          (''required_inputs'', JArr []), (''validation_results'', JArr [])])]
             :: unit json)
          = Inr (envelope, 0)
        \<and> ok envelope)"
  using nonstring_summary_unchecked
    [where v = "JInt 42 :: unit json"
       and data = "[(''summary'', JInt 42), (''artifacts'', JStr ''none'')]"]
  by (simp add: validate_output_schema_main_def REQUIRED_ROOT_def REQUIRED_MACHINE_def
      dict_get_map_of has_key_def err_def Let_def)

subsection \<open>A mismatch under a pending status\<close>

text \<open>
  Claim C3 says that validate-verify-response reports a \<^verbatim>\<open>tx_ref\<close> or amount mismatch
  whenever the order is not paid. It does not when the verified status is
  \<^verbatim>\<open>"success-pending-validation"\<close>: the branch for that status prints the
  await-webhook envelope with the literal \<^verbatim>\<open>"errors": []\<close> and returns 0, as the
  branch for a paid order does, whatever errors were collected before it. On the
  input below \<^verbatim>\<open>tx_ref\<close> and the amount both differ from the expected values, and the
  envelope has \<^verbatim>\<open>ok\<close> true and no error.
\<close>

theorem pending_status_drops_mismatch:
  "validate_verify_response_main zero_only
     (JObj [(''expected_tx_ref'', JStr ''tx-1001''), (''expected_amount'', JInt 5000),
            (''verify_payload'',
               JObj [(''status'', JStr ''success-pending-validation''),
                     (''tx_ref'', JStr ''tx-2002''), (''amount'', JInt 4000)])])
   = Inr (\<lparr>ok = True, tool = ''validate-verify-response'', errors = [],
            warnings = [''await webhook confirmation before fulfillment''],
            result = [(''action'', JStr ''await-webhook''), (''settled'', JBool False)]\<rparr>, 0)"
  by (simp add: validate_verify_response_main_def dict_get_map_of dict_get_default_def has_key_def
      eq_str_def is_int_def Let_def)

text \<open>
  Claim C3, amended. For validate-verify-response, for every input where
  \<^verbatim>\<open>order_status\<close> is not \<^verbatim>\<open>"paid"\<close> and \<^verbatim>\<open>verify_payload.status\<close> is not
  \<^verbatim>\<open>"success-pending-validation"\<close>: when \<^verbatim>\<open>expected_tx_ref\<close> and
  \<^verbatim>\<open>verify_payload.tx_ref\<close> are strings that differ, the envelope has a
  \<^verbatim>\<open>TX_REF_MISMATCH\<close> error, and when \<^verbatim>\<open>expected_amount\<close> and
  \<^verbatim>\<open>verify_payload.amount\<close> are integers that differ, it has an \<^verbatim>\<open>AMOUNT_MISMATCH\<close>
  error.
\<close>

theorem mismatch_reported_unless_pending:
  assumes "map_of data ''order_status'' \<noteq> Some (JStr ''paid'')"
    and "map_of data ''verify_payload'' = Some (JObj payload)"
    and "map_of payload ''status'' \<noteq> Some (JStr ''success-pending-validation'')"
  shows "\<exists>envelope status. validate_verify_response_main F (JObj data) = Inr (envelope, status)
     \<and> ((\<exists>a b. map_of data ''expected_tx_ref'' = Some (JStr a)
              \<and> map_of payload ''tx_ref'' = Some (JStr b) \<and> a \<noteq> b)
          \<longrightarrow> (\<exists>x \<in> set (errors envelope). code x = ''TX_REF_MISMATCH''))
     \<and> ((\<exists>a b. map_of data ''expected_amount'' = Some (JInt a)
              \<and> map_of payload ''amount'' = Some (JInt b) \<and> a \<noteq> b)
          \<longrightarrow> (\<exists>x \<in> set (errors envelope). code x = ''AMOUNT_MISMATCH''))"
proof -
  let ?P = "\<lambda>es. ((\<exists>a b. map_of data ''expected_tx_ref'' = Some (JStr a)
              \<and> map_of payload ''tx_ref'' = Some (JStr b) \<and> a \<noteq> b)
          \<longrightarrow> (\<exists>x \<in> set es. code x = ''TX_REF_MISMATCH''))
     \<and> ((\<exists>a b. map_of data ''expected_amount'' = Some (JInt a)
              \<and> map_of payload ''amount'' = Some (JInt b) \<and> a \<noteq> b)
          \<longrightarrow> (\<exists>x \<in> set es. code x = ''AMOUNT_MISMATCH''))"
  have unpaid: "eq_str (dict_get data ''order_status'') ''paid'' = False"
    using assms(1) by (simp add: eq_str_dict_get)
  have payload: "dict_get_default data ''verify_payload'' (JObj []) = JObj payload"
    using assms(2) by (simp add: dict_get_default_def)
  have settled: "eq_str (dict_get payload ''status'') ''success-pending-validation'' = False"
    using assms(3) by (simp add: eq_str_dict_get)
  show ?thesis
    unfolding validate_verify_response_main_def Let_def
    apply (simp only: json.case payload dict_or_empty.simps unpaid settled if_False)
    apply (rule fail_or_pass_errors [where P = ?P])
    apply (auto simp: dict_get_Some err_def is_int_def split del: if_split)
    done
qed

theorem mismatch_reported_unless_pending_witness:
  "\<exists>envelope status.
     validate_verify_response_main zero_only
       (JObj [(''expected_tx_ref'', JStr ''tx-1001''), (''expected_amount'', JInt 5000),
              (''verify_payload'',
                 JObj [(''status'', JStr ''successful''), (''tx_ref'', JStr ''tx-2002''),
                       (''amount'', JInt 4000)])])
       = Inr (envelope, status)
     \<and> (\<exists>x \<in> set (errors envelope). code x = ''TX_REF_MISMATCH'')
     \<and> (\<exists>x \<in> set (errors envelope). code x = ''AMOUNT_MISMATCH'')"
  using mismatch_reported_unless_pending
    [where F = zero_only
       and payload = "[(''status'', JStr ''successful''), (''tx_ref'', JStr ''tx-2002''),
                       (''amount'', JInt 4000)]"
       and data = "[(''expected_tx_ref'', JStr ''tx-1001''), (''expected_amount'', JInt 5000),
                    (''verify_payload'',
                       JObj [(''status'', JStr ''successful''), (''tx_ref'', JStr ''tx-2002''),
                             (''amount'', JInt 4000)])]"]
  by simp

subsection \<open>Credentials that are not an object\<close>

text \<open>
  Claim C2 says that for a supported provider and a \<^verbatim>\<open>credentials\<close> value that is not an
  object the per-key checks still run on an empty object. They do not: the script
  prints the errors collected so far and returns 1 at its first \<^verbatim>\<open>if errors:\<close>, before
  the loop over the required keys. On the input
  \<^verbatim>\<open>{"provider": "google", "credentials": "id:secret"}\<close> the only error is
  \<^verbatim>\<open>INVALID_CREDENTIALS\<close>.
\<close>

theorem invalid_credentials_counterexample:
  "\<exists>envelope.
     has_key PROVIDER_REQUIREMENTS
       (normalized_provider zero_only
          [(''provider'', JStr ''google''), (''credentials'', JStr ''id:secret'')])
     \<and> translate_provider_credentials_main zero_only
         (JObj [(''provider'', JStr ''google''), (''credentials'', JStr ''id:secret'')])
       = Inr (envelope, 1)
     \<and> map code (errors envelope) = [''INVALID_CREDENTIALS'']
     \<and> ''MISSING_CREDENTIAL'' \<notin> set (map code (errors envelope))"
  by (simp add: translate_provider_credentials_main_def normalized_provider_def
      PROVIDER_REQUIREMENTS_def dict_get_map_of dict_get_default_def has_key_def py_str_def
      py_strip_def py_lower_def lower_char_def is_space_def err_def Let_def)

text \<open>
  Claim C2, amended. For translate-provider-credentials, for every input whose provider
  is one of the supported providers but whose \<^verbatim>\<open>credentials\<close> field is present and not
  a JSON object, the script reports the \<^verbatim>\<open>INVALID_CREDENTIALS\<close> error alone and exits
  with status 1 before the per-key required-credential checks: the envelope has
  \<^verbatim>\<open>ok\<close> false, that one error and an empty \<^verbatim>\<open>result\<close>.
\<close>

theorem invalid_credentials_stop_the_run:
  assumes "has_key PROVIDER_REQUIREMENTS (normalized_provider F data)"
    and "map_of data ''credentials'' = Some c" and "\<not> is_dict c"
  shows "translate_provider_credentials_main F (JObj data) =
     Inr (\<lparr>ok = False, tool = ''translate-provider-credentials'',
            errors = [err ''INVALID_CREDENTIALS'' ''credentials must be an object'' ''credentials''
                        ''Provide provider credentials as a JSON object.''],
            warnings = [], result = []\<rparr>, 1)"
  using assms
  by (simp add: translate_provider_credentials_main_def dict_get_Some Let_def)

theorem invalid_credentials_stop_the_run_witness:
  "translate_provider_credentials_main zero_only
     (JObj [(''provider'', JStr '' GitHub ''), (''credentials'', JArr [JStr ''id'', JStr ''secret''])])
   = Inr (\<lparr>ok = False, tool = ''translate-provider-credentials'',
            errors = [err ''INVALID_CREDENTIALS'' ''credentials must be an object'' ''credentials''
                        ''Provide provider credentials as a JSON object.''],
            warnings = [], result = []\<rparr>, 1)"
proof (rule invalid_credentials_stop_the_run [where c = "JArr [JStr ''id'', JStr ''secret'']"])
  show "has_key PROVIDER_REQUIREMENTS
          (normalized_provider zero_only
             [(''provider'', JStr '' GitHub ''),
              (''credentials'', JArr [JStr ''id'', JStr ''secret''])])"
    by code_simp
qed simp_all

subsection \<open>A credential with a falsy value\<close>

lemma required_loop_result:
  assumes "\<forall>k \<in> set keys. map_of (env req) k \<noteq> None"
  shows "\<exists>mapped.
     required_loop F provider req creds keys (errors0, mapped0) =
       Inr (errors0 @ map (missing_credential provider)
                        (filter (\<lambda>k. \<not> truthy F (dict_get creds k)) keys), mapped)
     \<and> fst ` set mapped \<subseteq>
         fst ` set mapped0 \<union> {n. \<exists>k \<in> set keys. truthy F (dict_get creds k) \<and> map_of (env req) k = Some n}"
  using assms
proof (induction keys arbitrary: errors0 mapped0)
  case Nil
  then show ?case by simp
next
  case (Cons key keys)
  show ?case
  proof (cases "truthy F (dict_get creds key)")
    case False
    from Cons.prems have rest: "\<forall>k \<in> set keys. map_of (env req) k \<noteq> None"
      by simp
    from Cons.IH [OF rest, of "errors0 @ [missing_credential provider key]" mapped0] False
    show ?thesis
      by (auto simp: missing_credential_def)
  next
    case True
    from Cons.prems obtain name where name: "map_of (env req) key = Some name"
      by auto
    from Cons.prems have rest: "\<forall>k \<in> set keys. map_of (env req) k \<noteq> None"
      by simp
    from Cons.IH [OF rest, of errors0 "AList.update name (py_str F (dict_get creds key)) mapped0"]
    obtain mapped where
      run: "required_loop F provider req creds keys
              (errors0, AList.update name (py_str F (dict_get creds key)) mapped0) =
            Inr (errors0 @ map (missing_credential provider)
                              (filter (\<lambda>k. \<not> truthy F (dict_get creds k)) keys), mapped)"
      and keys: "fst ` set mapped \<subseteq>
         fst ` set (AList.update name (py_str F (dict_get creds key)) mapped0)
         \<union> {n. \<exists>k \<in> set keys. truthy F (dict_get creds k) \<and> map_of (env req) k = Some n}"
      by blast
    have "fst ` set (AList.update name (py_str F (dict_get creds key)) mapped0)
            = {name} \<union> fst ` set mapped0"
      by (rule dom_update)
    with keys True name have "fst ` set mapped \<subseteq>
         fst ` set mapped0
         \<union> {n. \<exists>k \<in> set (key # keys). truthy F (dict_get creds k) \<and> map_of (env req) k = Some n}"
      by auto
    with run True name show ?thesis
      by simp
  qed
qed

lemma required_loop_cong:
  assumes "\<forall>k \<in> set keys.
      (truthy F (dict_get c1 k) \<longrightarrow> dict_get c2 k = dict_get c1 k)
      \<and> (\<not> truthy F (dict_get c1 k) \<longrightarrow> \<not> truthy F (dict_get c2 k))"
  shows "required_loop F provider req c1 keys acc = required_loop F provider req c2 keys acc"
  using assms
proof (induction keys arbitrary: acc)
  case Nil
  then show ?case by (cases acc) simp
next
  case (Cons key keys)
  then show ?case
    by (cases acc; cases "truthy F (dict_get c1 key)") (simp_all split: option.split)
qed

lemma provider_requirement_cases:
  assumes "map_of PROVIDER_REQUIREMENTS provider = Some req"
  shows "(\<forall>k \<in> set (required req). map_of (env req) k \<noteq> None)
       \<and> inj_on (map_of (env req)) (set (required req))"
  using assms
  by (auto simp: PROVIDER_REQUIREMENTS_def inj_on_def split: if_splits)

lemma dict_get_delete:
  "dict_get (AList.delete key creds) k = (if k = key then JNull else dict_get creds k)"
  by (simp add: dict_get_map_of delete_conv)

lemma translate_supported:
  assumes "map_of PROVIDER_REQUIREMENTS (normalized_provider F data) = Some req"
    and "map_of data ''credentials'' = Some (JObj creds)"
  shows "translate_provider_credentials_main F (JObj data) =
     (case required_loop F (normalized_provider F data) req creds (required req) ([], []) of
        Inl e \<Rightarrow> Inl e
      | Inr (errors3, mapped) \<Rightarrow>
          if errors3 \<noteq> []
          then Inr (\<lparr>ok = False, tool = ''translate-provider-credentials'',
                     errors = errors3, warnings = [],
                     result = [(''provider'', JStr (normalized_provider F data))]\<rparr>, 1)
          else Inr (\<lparr>ok = True, tool = ''translate-provider-credentials'',
                     errors = [], warnings = [],
                     result = [(''provider'', JStr (normalized_provider F data)),
                               (''env_mapping'', JObj (map (\<lambda>(k, v). (k, JStr v)) mapped))]\<rparr>,
                    0))"
  using assms
  by (simp add: translate_provider_credentials_main_def has_key_def dict_get_Some Let_def)

text \<open>
  Claim C9. For translate-provider-credentials, for every input with a supported
  provider and a \<^verbatim>\<open>credentials\<close> object, a required credential key that is present
  but bound to a falsy value (the empty string, \<^verbatim>\<open>null\<close>, \<^verbatim>\<open>false\<close>, 0, ...) is
  treated exactly like an absent key: the envelope has a \<^verbatim>\<open>MISSING_CREDENTIAL\<close> error
  with the path \<^verbatim>\<open>credentials.<key>\<close>, \<^verbatim>\<open>ok\<close> is false and the status is 1; the key
  is excluded from the mapping (the \<^verbatim>\<open>mapped\<close> dict the loop builds has no entry for
  the key's environment variable, and the failure envelope has no \<^verbatim>\<open>env_mapping\<close>);
  and the script prints the very same envelope on the input with the key removed from
  \<^verbatim>\<open>credentials\<close>.
\<close>

theorem falsy_credential_is_missing:
  assumes "map_of PROVIDER_REQUIREMENTS (normalized_provider F data) = Some req"
    and "map_of data ''credentials'' = Some (JObj creds)"
    and "key \<in> set (required req)"
    and "map_of creds key = Some v" and "\<not> truthy F v"
  shows "\<exists>envelope errors3 mapped.
      translate_provider_credentials_main F (JObj data) = Inr (envelope, 1)
    \<and> \<not> ok envelope
    \<and> (\<exists>x \<in> set (errors envelope). code x = ''MISSING_CREDENTIAL'' \<and> path x = ''credentials.'' @ key)
    \<and> map_of (result envelope) ''env_mapping'' = None
    \<and> required_loop F (normalized_provider F data) req creds (required req) ([], [])
        = Inr (errors3, mapped)
    \<and> (\<forall>name. map_of (env req) key = Some name \<longrightarrow> map_of mapped name = None)
    \<and> translate_provider_credentials_main F
        (JObj (AList.update ''credentials'' (JObj (AList.delete key creds)) data))
        = Inr (envelope, 1)"
proof -
  let ?p = "normalized_provider F data"
  let ?data' = "AList.update ''credentials'' (JObj (AList.delete key creds)) data"
  have falsy: "\<not> truthy F (dict_get creds key)"
    using assms(4,5) by (simp add: dict_get_Some)
  from provider_requirement_cases [OF assms(1)]
  have table: "\<forall>k \<in> set (required req). map_of (env req) k \<noteq> None"
    and inj: "inj_on (map_of (env req)) (set (required req))"
    by simp_all
  from required_loop_result [OF table, of F ?p creds "[]" "[]"]
  obtain mapped where
    run: "required_loop F ?p req creds (required req) ([], []) =
            Inr (map (missing_credential ?p)
                   (filter (\<lambda>k. \<not> truthy F (dict_get creds k)) (required req)), mapped)"
    and keys: "fst ` set mapped \<subseteq>
         {n. \<exists>k \<in> set (required req). truthy F (dict_get creds k) \<and> map_of (env req) k = Some n}"
    by auto
  let ?errors3 = "map (missing_credential ?p)
                   (filter (\<lambda>k. \<not> truthy F (dict_get creds k)) (required req))"
  let ?envelope = "\<lparr>ok = False, tool = ''translate-provider-credentials'',
                     errors = ?errors3, warnings = [],
                     result = [(''provider'', JStr ?p)]\<rparr> :: 'a envelope"
  have member: "missing_credential ?p key \<in> set ?errors3"
    using assms(3) falsy by simp
  have nonempty: "?errors3 \<noteq> []"
  proof
    assume none: "?errors3 = []"
    from member show False
      unfolding none by simp
  qed
  have first: "translate_provider_credentials_main F (JObj data) = Inr (?envelope, 1)"
    using nonempty by (simp add: translate_supported [OF assms(1,2)] run)
  have excluded: "map_of mapped name = None" if "map_of (env req) key = Some name" for name
  proof -
    have "name \<notin> fst ` set mapped"
    proof
      assume "name \<in> fst ` set mapped"
      with keys obtain k where k: "k \<in> set (required req)" "truthy F (dict_get creds k)"
          "map_of (env req) k = Some name"
        by auto
      from k(3) that have "map_of (env req) k = map_of (env req) key"
        by simp
      with inj have "k = key"
        using k(1) assms(3) by (rule inj_onD)
      with k falsy show False
        by simp
    qed
    then show ?thesis
      by (simp add: map_of_eq_None_iff)
  qed
  have provider': "normalized_provider F ?data' = ?p"
    by (simp add: normalized_provider_def dict_get_default_def update_conv')
  have creds': "map_of ?data' ''credentials'' = Some (JObj (AList.delete key creds))"
    by (simp add: update_conv')
  have same: "required_loop F ?p req (AList.delete key creds) (required req) ([], [])
      = required_loop F ?p req creds (required req) ([], [])"
    by (rule required_loop_cong) (use falsy in \<open>auto simp: dict_get_delete\<close>)
  have second: "translate_provider_credentials_main F (JObj ?data') = Inr (?envelope, 1)"
    using nonempty assms(1)
    by (simp add: translate_supported [where req = req, OF _ creds'] provider' same run)
  from first second member run excluded show ?thesis
    by (auto simp: missing_credential_def err_def intro!: exI [where x = ?envelope])
qed

theorem falsy_credential_is_missing_witness:
  "\<exists>envelope.
      translate_provider_credentials_main zero_only
        (JObj [(''provider'', JStr ''google''),
               (''credentials'', JObj [(''client_id'', JStr []), (''client_secret'', JStr ''s3'')])])
        = Inr (envelope, 1)
    \<and> \<not> ok envelope
    \<and> map path (errors envelope) = [''credentials.client_id'']
    \<and> translate_provider_credentials_main zero_only
        (JObj [(''provider'', JStr ''google''),
               (''credentials'', JObj [(''client_secret'', JStr ''s3'')])])
        = Inr (envelope, 1)"
  using falsy_credential_is_missing
    [where F = zero_only and key = "''client_id''" and v = "JStr []"
       and creds = "[(''client_id'', JStr []), (''client_secret'', JStr ''s3'')]"
       and req = "\<lparr>required = [''client_id'', ''client_secret''],
                   env = [(''client_id'', ''GOOGLE_CLIENT_ID''),
                          (''client_secret'', ''GOOGLE_CLIENT_SECRET'')]\<rparr>"
       and data = "[(''provider'', JStr ''google''),
                    (''credentials'',
                       JObj [(''client_id'', JStr []), (''client_secret'', JStr ''s3'')])]"]
  by (simp add: translate_provider_credentials_main_def normalized_provider_def
      PROVIDER_REQUIREMENTS_def dict_get_map_of dict_get_default_def has_key_def py_str_def
      py_strip_def py_lower_def lower_char_def is_space_def err_def Let_def)

end
